theory Spec2Isabelle
  imports Complex_Main "HOL-Library.Word"
begin

section \<open>Shared types (types.ts, App.tsx)\<close>

text \<open>
  JavaScript numbers are modelled as \<open>real\<close> where the code computes with fractions
  (pointer coordinates, percentages, angles, scale factors) and as \<open>nat\<close> where they are
  counters or pixel dimensions of a bitmap. The rasterisation of shapes into pixels by the
  browser is outside the model: a canvas is the list of drawing operations the code issues,
  read as regions of the plane. Rounding of IEEE doubles is modelled where a fraction is cut
  off to give a whole number of pixels, in the crop selector, and not elsewhere.
\<close>

datatype AppState =
  HOME | IDLE | GENERATE_PROMPT | TOOL_SELECTION | EDITING | EXPANDING | LOADING | RESULT

datatype Tool = MagicFill | Insert | Expand

text \<open>A \<open>File\<close> object, as far as the code reads it: \<open>file.name\<close> and \<open>file.type\<close>.\<close>

record FileRef =
  fileName :: string
  fileType :: string

text \<open>\<open>originalImage\<close> and \<open>uncroppedOriginalImage\<close>: \<open>{ url, file, width, height }\<close>.\<close>

record Image =
  url :: string
  imageFile :: FileRef
  width :: nat
  height :: nat

text \<open>\<open>insertImage\<close>: \<open>{ url, file }\<close>.\<close>

record InsertImage =
  insertUrl :: string
  insertFile :: FileRef

text \<open>
  \<open>interface ImageTransform\<close>. The fields \<open>x\<close> and \<open>y\<close> of the source are called
  \<open>posX\<close> and \<open>posY\<close> here.
\<close>

record ImageTransform =
  posX :: real
  posY :: real
  scale :: real
  rotation :: real
  opacity :: real
  perspective :: real
  rotateX :: real
  rotateY :: real

definition defaultTransform :: ImageTransform where
  "defaultTransform = \<lparr>posX = 50, posY = 50, scale = 50, rotation = 0, opacity = 100,
     perspective = 1000, rotateX = 0, rotateY = 0\<rparr>"

record ExpandSteps =
  top :: nat
  right :: nat
  bottom :: nat
  left :: nat

definition zeroSteps :: ExpandSteps where
  "zeroSteps = \<lparr>top = 0, right = 0, bottom = 0, left = 0\<rparr>"

text \<open>A settled promise: its value, or the \<open>message\<close> of the error it rejects with.\<close>

datatype 'a outcome = Resolved 'a | Rejected string

section \<open>The browser's geometry and canvas interfaces\<close>

subsection \<open>DOMMatrix\<close>

text \<open>
  A \<open>DOMMatrix\<close> is a 4x4 matrix stored by columns: \<open>m11 .. m14\<close> is the first column.
  \<open>translateSelf\<close>, \<open>rotateSelf\<close> and \<open>scaleSelf\<close> post-multiply the current matrix.
  \<open>rotateSelf(rotX, rotY, rotZ)\<close> post-multiplies the rotation about the z axis, then the one
  about the y axis, then the one about the x axis; angles are in degrees.
\<close>

datatype Vec4 = Vec4 real real real real

datatype DOMMatrix = DOMMatrix Vec4 Vec4 Vec4 Vec4

fun vadd :: "Vec4 \<Rightarrow> Vec4 \<Rightarrow> Vec4" where
  "vadd (Vec4 a1 a2 a3 a4) (Vec4 b1 b2 b3 b4) = Vec4 (a1 + b1) (a2 + b2) (a3 + b3) (a4 + b4)"

fun vscale :: "real \<Rightarrow> Vec4 \<Rightarrow> Vec4" where
  "vscale k (Vec4 a1 a2 a3 a4) = Vec4 (k * a1) (k * a2) (k * a3) (k * a4)"

fun mapply :: "DOMMatrix \<Rightarrow> Vec4 \<Rightarrow> Vec4" where
  "mapply (DOMMatrix c1 c2 c3 c4) (Vec4 v1 v2 v3 v4) =
     vadd (vadd (vscale v1 c1) (vscale v2 c2)) (vadd (vscale v3 c3) (vscale v4 c4))"

fun postMultiply :: "DOMMatrix \<Rightarrow> DOMMatrix \<Rightarrow> DOMMatrix" where
  "postMultiply m (DOMMatrix c1 c2 c3 c4) =
     DOMMatrix (mapply m c1) (mapply m c2) (mapply m c3) (mapply m c4)"

definition identityMatrix :: DOMMatrix where
  "identityMatrix = DOMMatrix (Vec4 1 0 0 0) (Vec4 0 1 0 0) (Vec4 0 0 1 0) (Vec4 0 0 0 1)"

definition translateSelf :: "real \<Rightarrow> real \<Rightarrow> DOMMatrix \<Rightarrow> DOMMatrix" where
  "translateSelf tx ty m =
     postMultiply m (DOMMatrix (Vec4 1 0 0 0) (Vec4 0 1 0 0) (Vec4 0 0 1 0) (Vec4 tx ty 0 1))"

definition scaleSelf :: "real \<Rightarrow> DOMMatrix \<Rightarrow> DOMMatrix" where
  "scaleSelf k m =
     postMultiply m (DOMMatrix (Vec4 k 0 0 0) (Vec4 0 k 0 0) (Vec4 0 0 1 0) (Vec4 0 0 0 1))"

definition rad :: "real \<Rightarrow> real" where
  "rad deg = deg * pi / 180"

definition rotationZ :: "real \<Rightarrow> DOMMatrix" where
  "rotationZ deg = DOMMatrix (Vec4 (cos (rad deg)) (sin (rad deg)) 0 0)
                             (Vec4 (- sin (rad deg)) (cos (rad deg)) 0 0)
                             (Vec4 0 0 1 0) (Vec4 0 0 0 1)"

definition rotationY :: "real \<Rightarrow> DOMMatrix" where
  "rotationY deg = DOMMatrix (Vec4 (cos (rad deg)) 0 (- sin (rad deg)) 0)
                             (Vec4 0 1 0 0)
                             (Vec4 (sin (rad deg)) 0 (cos (rad deg)) 0) (Vec4 0 0 0 1)"

definition rotationX :: "real \<Rightarrow> DOMMatrix" where
  "rotationX deg = DOMMatrix (Vec4 1 0 0 0)
                             (Vec4 0 (cos (rad deg)) (sin (rad deg)) 0)
                             (Vec4 0 (- sin (rad deg)) (cos (rad deg)) 0) (Vec4 0 0 0 1)"

definition rotateSelf :: "real \<Rightarrow> real \<Rightarrow> real \<Rightarrow> DOMMatrix \<Rightarrow> DOMMatrix" where
  "rotateSelf rotX rotY rotZ m =
     postMultiply (postMultiply (postMultiply m (rotationZ rotZ)) (rotationY rotY)) (rotationX rotX)"

subsection \<open>The transform of a 2D context\<close>

text \<open>
  \<open>ctx.setTransform(matrix)\<close> reads the six members \<open>a = m11\<close>, \<open>b = m12\<close>, \<open>c = m21\<close>,
  \<open>d = m22\<close>, \<open>e = m41\<close>, \<open>f = m42\<close> of its argument; a point \<open>(x, y)\<close> of user space is
  drawn at \<open>(a x + c y + e, b x + d y + f)\<close>.
\<close>

datatype Matrix2D = Matrix2D real real real real real real

fun to2D :: "DOMMatrix \<Rightarrow> Matrix2D" where
  "to2D (DOMMatrix (Vec4 m11 m12 m13 m14) (Vec4 m21 m22 m23 m24) c3 (Vec4 m41 m42 m43 m44)) =
     Matrix2D m11 m12 m21 m22 m41 m42"

definition identity2D :: Matrix2D where
  "identity2D = Matrix2D 1 0 0 1 0 0"

type_synonym point = "real \<times> real"

fun apply2D :: "Matrix2D \<Rightarrow> point \<Rightarrow> point" where
  "apply2D (Matrix2D a b c d e f) (px, py) = (a * px + c * py + e, b * px + d * py + f)"

fun det2D :: "Matrix2D \<Rightarrow> real" where
  "det2D (Matrix2D a b c d e f) = a * d - b * c"

fun unapply2D :: "Matrix2D \<Rightarrow> point \<Rightarrow> point" where
  "unapply2D (Matrix2D a b c d e f) (px, py) =
     ((d * (px - e) - c * (py - f)) / (a * d - b * c),
      (a * (py - f) - b * (px - e)) / (a * d - b * c))"

subsection \<open>A canvas as the drawing operations issued on it\<close>

text \<open>
  \<open>FillRect style m x y w h\<close> is \<open>fillRect(x, y, w, h)\<close> under the fill style and the current
  transform \<open>m\<close>; \<open>DrawImage src alpha m dx dy dw dh\<close> is \<open>drawImage(img, dx, dy, dw, dh)\<close> of the
  image loaded from \<open>src\<close> under \<open>globalAlpha\<close> and the current transform;
  \<open>DrawSubImage src sx sy sw sh dx dy dw dh\<close> is the nine-argument \<open>drawImage\<close> on a fresh
  context, which copies the source rectangle of the image to the destination rectangle.
\<close>

datatype DrawOp =
  FillRect string Matrix2D real real real real
| DrawImage string real Matrix2D real real real real
| DrawSubImage string real real real real real real real real

record Canvas =
  canvasWidth :: nat
  canvasHeight :: nat
  ops :: "DrawOp list"

definition inRect :: "real \<Rightarrow> real \<Rightarrow> real \<Rightarrow> real \<Rightarrow> point \<Rightarrow> bool" where
  "inRect rx ry rw rh p = (rx \<le> fst p \<and> fst p \<le> rx + rw \<and> ry \<le> snd p \<and> snd p \<le> ry + rh)"

text \<open>
  The region an operation paints: the image of its rectangle under its transform. A transform
  that is not invertible flattens the rectangle to a segment or a point, which covers no area.
\<close>

fun covers :: "DrawOp \<Rightarrow> point \<Rightarrow> bool" where
  "covers (FillRect style m rx ry rw rh) p = (det2D m \<noteq> 0 \<and> inRect rx ry rw rh (unapply2D m p))"
| "covers (DrawImage src alpha m rx ry rw rh) p = (det2D m \<noteq> 0 \<and> inRect rx ry rw rh (unapply2D m p))"
| "covers (DrawSubImage src sx sy sw sh rx ry rw rh) p = inRect rx ry rw rh p"

definition inCanvas :: "Canvas \<Rightarrow> point \<Rightarrow> bool" where
  "inCanvas cv p = inRect 0 0 (real (canvasWidth cv)) (real (canvasHeight cv)) p"

text \<open>The operation that was the last to paint a point of the bitmap.\<close>

fun lastCovering :: "DrawOp list \<Rightarrow> point \<Rightarrow> DrawOp option" where
  "lastCovering [] p = None"
| "lastCovering (op # rest) p =
     (case lastCovering rest p of Some later \<Rightarrow> Some later
      | None \<Rightarrow> if covers op p then Some op else None)"

definition topOp :: "Canvas \<Rightarrow> point \<Rightarrow> DrawOp option" where
  "topOp cv p = (if inCanvas cv p then lastCovering (ops cv) p else None)"

section \<open>The session state of App (App.tsx)\<close>

text \<open>
  The component state of \<open>App\<close> is a collection of \<open>useState\<close> cells. An event handler is a
  closure over the values of the render it was created in, and the setters take effect with
  the next render; handlers of distinct user events run in distinct renders. A handler is
  therefore a function from the state before the event to the state after it. For an
  \<open>async\<close> handler the state after it is the one reached when its last continuation has run;
  the results of the promises it awaits come from the environment.

  \<open>backendCalls\<close> is not a cell of the source: it records the calls made to the functions of
  \<open>services/geminiService\<close>, oldest first. A call is recorded with the values its arguments are
  computed from: the image or canvas in place of its base64 encoding and MIME type.
  \<open>EditImageWithText prompt image mask context\<close> stands for \<open>editImageWithText\<close>,
  \<open>BlendImages image composite mask insert\<close> for \<open>blendImages\<close> and
  \<open>ExpandImage prompt canvas type\<close> for \<open>expandImage\<close>.
\<close>

datatype Request =
  EditImageWithText string Image string string
| BlendImages Image Canvas Canvas InsertImage
| ExpandImage string Canvas string

record App =
  appState :: AppState
  originalImage :: "Image option"
  uncroppedOriginalImage :: "Image option"
  insertImage :: "InsertImage option"
  resultData :: "string option"
  prompt :: string
  error :: "string option"
  isSelectionDone :: bool
  finalSelection :: "string option"
  loadingMessage :: string
  systemContext :: string
  tool :: "Tool option"
  isPlacingImage :: bool
  insertImageTransform :: ImageTransform
  expansionStepSize :: nat
  expandSteps :: ExpandSteps
  expandHistory :: "ExpandSteps list"
  isCropping :: bool
  backendCalls :: "Request list"

text \<open>
  What the handlers obtain from outside the component: whether \<open>getContext('2d')\<close> yields a
  context for each canvas they create, the natural size of the image behind a URL once it has
  loaded (\<open>None\<close>: \<open>onload\<close> never fires), and how the awaited promises settle.
\<close>

record Env =
  expansionCtx :: bool
  compositeCtx :: bool
  maskCtx :: bool
  naturalSize :: "string \<Rightarrow> (nat \<times> nat) option"
  fileToDataUrl :: "FileRef \<Rightarrow> string outcome"
  fetchBlobType :: "string \<Rightarrow> string outcome"
  backend :: "Request \<Rightarrow> string outcome"

text \<open>\<open>err.message || 'An unexpected error occurred.'\<close>\<close>

definition messageOr :: "string \<Rightarrow> string" where
  "messageOr m = (if m = [] then ''An unexpected error occurred.'' else m)"

subsection \<open>Magic Expand: clicks and undo\<close>

text \<open>The argument type of \<open>handleExpandClick\<close> is a union of eight string literals.\<close>

datatype Direction =
  DTop | DRight | DBottom | DLeft | DTopLeft | DTopRight | DBottomLeft | DBottomRight

fun dirString :: "Direction \<Rightarrow> string" where
  "dirString DTop = ''top''"
| "dirString DRight = ''right''"
| "dirString DBottom = ''bottom''"
| "dirString DLeft = ''left''"
| "dirString DTopLeft = ''top-left''"
| "dirString DTopRight = ''top-right''"
| "dirString DBottomLeft = ''bottom-left''"
| "dirString DBottomRight = ''bottom-right''"

text \<open>\<open>String.prototype.includes\<close>: the argument occurs as a contiguous substring.\<close>

fun startsWith :: "string \<Rightarrow> string \<Rightarrow> bool" where
  "startsWith s [] = True"
| "startsWith [] (c # cs) = False"
| "startsWith (x # xs) (c # cs) = (x = c \<and> startsWith xs cs)"

fun str_includes :: "string \<Rightarrow> string \<Rightarrow> bool" where
  "str_includes [] sub = (sub = [])"
| "str_includes (x # xs) sub = (startsWith (x # xs) sub \<or> str_includes xs sub)"

definition MAX_EXPANSION_CLICKS :: nat where
  "MAX_EXPANSION_CLICKS = 6"

text \<open>
  \<open>Object.values(expandSteps).reduce((sum, val) => sum + val, 0)\<close>: the object is created
  with the keys top, right, bottom, left and every update spreads it, so the values come in
  that order.
\<close>

definition totalClicks :: "ExpandSteps \<Rightarrow> nat" where
  "totalClicks st = foldl (\<lambda>sum val. sum + val) 0 [top st, right st, bottom st, left st]"

definition capMessage :: string where
  "capMessage = ''You can expand up to 6 times per generation.''"

text \<open>The updater passed to \<open>setExpandSteps\<close>.\<close>

definition bumpSteps :: "Direction \<Rightarrow> ExpandSteps \<Rightarrow> ExpandSteps" where
  "bumpSteps direction steps =
     (let n1 = (if str_includes (dirString direction) ''top'' then steps\<lparr>top := top steps + 1\<rparr> else steps);
          n2 = (if str_includes (dirString direction) ''bottom'' then n1\<lparr>bottom := bottom n1 + 1\<rparr> else n1);
          n3 = (if str_includes (dirString direction) ''left'' then n2\<lparr>left := left n2 + 1\<rparr> else n2);
          n4 = (if str_includes (dirString direction) ''right'' then n3\<lparr>right := right n3 + 1\<rparr> else n3)
      in n4)"

text \<open>
  \<open>handleExpandClick\<close>. The message set on rejection is cleared by a timer three seconds
  later; the timer is not part of the model.
\<close>

definition handleExpandClick :: "Direction \<Rightarrow> App \<Rightarrow> App" where
  "handleExpandClick direction s =
     (if totalClicks (expandSteps s) \<ge> MAX_EXPANSION_CLICKS
      then s\<lparr>error := Some capMessage\<rparr>
      else s\<lparr>expandHistory := expandHistory s @ [expandSteps s],
              expandSteps := bumpSteps direction (expandSteps s)\<rparr>)"

text \<open>\<open>handleUndoExpand\<close>: \<open>h.slice(0, -1)\<close> drops the last entry.\<close>

definition handleUndoExpand :: "App \<Rightarrow> App" where
  "handleUndoExpand s =
     (if length (expandHistory s) = 0 then s
      else s\<lparr>expandSteps := expandHistory s ! (length (expandHistory s) - 1),
              expandHistory := butlast (expandHistory s)\<rparr>)"

text \<open>
  \<open>handleToolSelect\<close>. \<open>Math.round(v)\<close> is \<open>floor(v + 0.5)\<close>; a quarter of a natural number
  is not negative, so the step is a natural number.
\<close>

definition handleToolSelect :: "Tool \<Rightarrow> App \<Rightarrow> App" where
  "handleToolSelect selectedTool s =
     (let s1 = s\<lparr>tool := Some selectedTool, error := None\<rparr>
      in case (selectedTool, originalImage s) of
           (Expand, Some img) \<Rightarrow>
             s1\<lparr>expansionStepSize := nat \<lfloor>real (min (width img) (height img)) * 0.25 + 0.5\<rfloor>,
                appState := EXPANDING, expandSteps := zeroSteps, expandHistory := []\<rparr>
         | (Expand, None) \<Rightarrow> s1
         | (_, _) \<Rightarrow> s1\<lparr>appState := EDITING, isSelectionDone := False, finalSelection := None\<rparr>)"

fun clicks :: "Direction list \<Rightarrow> App \<Rightarrow> App" where
  "clicks [] s = s"
| "clicks (d # ds) s = clicks ds (handleExpandClick d s)"

fun undos :: "nat \<Rightarrow> App \<Rightarrow> App" where
  "undos 0 s = s"
| "undos (Suc n) s = undos n (handleUndoExpand s)"

subsection \<open>Magic Expand: the canvas sent for outpainting\<close>

text \<open>The canvas \<open>handleExpandSubmit\<close> builds inside its \<open>try\<close> block, once the image has loaded.\<close>

definition expansionCanvas :: "Image \<Rightarrow> ExpandSteps \<Rightarrow> nat \<Rightarrow> Canvas" where
  "expansionCanvas img steps stepSize =
     (let originalWidth = width img; originalHeight = height img;
          finalWidth = originalWidth + (left steps + right steps) * stepSize;
          finalHeight = originalHeight + (top steps + bottom steps) * stepSize;
          imgDrawX = left steps * stepSize;
          imgDrawY = top steps * stepSize
      in \<lparr>canvasWidth = finalWidth, canvasHeight = finalHeight,
          ops = [FillRect ''#808080'' identity2D 0 0 (real finalWidth) (real finalHeight),
                 DrawImage (url img) 1 identity2D (real imgDrawX) (real imgDrawY)
                   (real originalWidth) (real originalHeight)]\<rparr>)"

definition catchExpand :: "string \<Rightarrow> App \<Rightarrow> App" where
  "catchExpand m s = s\<lparr>error := Some (messageOr m), appState := EXPANDING\<rparr>"

definition handleExpandSubmit :: "Env \<Rightarrow> App \<Rightarrow> App" where
  "handleExpandSubmit env s =
     (case originalImage s of
        None \<Rightarrow> s
      | Some img \<Rightarrow>
          (let s1 = s\<lparr>error := None, appState := LOADING,
                      loadingMessage := ''Expanding your canvas...''\<rparr>
           in if \<not> expansionCtx env then catchExpand ''Could not create canvas for expansion'' s1
              else case naturalSize env (url img) of
                None \<Rightarrow> s1
              | Some loaded \<Rightarrow>
                  (let req = ExpandImage (prompt s)
                               (expansionCanvas img (expandSteps s) (expansionStepSize s))
                               (fileType (imageFile img));
                       s2 = s1\<lparr>backendCalls := backendCalls s1 @ [req]\<rparr>
                   in case backend env req of
                        Resolved resultImageUrl \<Rightarrow>
                          s2\<lparr>resultData := Some resultImageUrl, appState := RESULT\<rparr>
                      | Rejected m \<Rightarrow> catchExpand m s2)))"

subsection \<open>Insert: the transform, the composite and the placement mask\<close>

text \<open>
  \<open>buildTransformMatrix\<close>, a closure over \<open>insertImageTransform\<close> and the natural size of the
  inserted image; its argument is the canvas the matrix is for.
\<close>

definition buildTransformMatrix :: "ImageTransform \<Rightarrow> nat \<Rightarrow> nat \<Rightarrow> Canvas \<Rightarrow> DOMMatrix" where
  "buildTransformMatrix t imgWidth imgHeight canvas =
     (let m1 = translateSelf ((posX t / 100) * real (canvasWidth canvas))
                             ((posY t / 100) * real (canvasHeight canvas)) identityMatrix;
          m2 = rotateSelf (rotateX t) (rotateY t) (rotation t) m1;
          m3 = scaleSelf (scale t / 100) m2;
          m4 = translateSelf (- real imgWidth / 2) (- real imgHeight / 2) m3
      in m4)"

text \<open>
  The two canvases of the insert branch of \<open>handleEditSubmit\<close>. Each is created with the size
  of the base image and drawn on; \<open>buildTransformMatrix\<close> is called on the canvas itself.
  \<open>drawImage(originalImg, 0, 0)\<close> draws the base image at its natural size.
\<close>

definition compositeCanvas :: "Image \<Rightarrow> nat \<times> nat \<Rightarrow> InsertImage \<Rightarrow> ImageTransform \<Rightarrow> nat \<Rightarrow> nat \<Rightarrow> Canvas" where
  "compositeCanvas img natural ins t imgWidth imgHeight =
     (let blank = \<lparr>canvasWidth = width img, canvasHeight = height img, ops = []\<rparr>
      in blank\<lparr>ops := [DrawImage (url img) 1 identity2D 0 0 (real (fst natural)) (real (snd natural)),
                       DrawImage (insertUrl ins) (opacity t / 100)
                         (to2D (buildTransformMatrix t imgWidth imgHeight blank))
                         0 0 (real imgWidth) (real imgHeight)]\<rparr>)"

definition maskCanvas :: "Image \<Rightarrow> ImageTransform \<Rightarrow> nat \<Rightarrow> nat \<Rightarrow> Canvas" where
  "maskCanvas img t imgWidth imgHeight =
     (let blank = \<lparr>canvasWidth = width img, canvasHeight = height img, ops = []\<rparr>
      in blank\<lparr>ops := [FillRect ''black'' identity2D 0 0 (real (canvasWidth blank)) (real (canvasHeight blank)),
                       FillRect ''white'' (to2D (buildTransformMatrix t imgWidth imgHeight blank))
                         0 0 (real imgWidth) (real imgHeight)]\<rparr>)"

text \<open>Which fill style, and which image, is the last thing painted at a point of a canvas.\<close>

definition paintedWith :: "string \<Rightarrow> Canvas \<Rightarrow> point \<Rightarrow> bool" where
  "paintedWith style cv p =
     (case topOp cv p of Some (FillRect st m rx ry rw rh) \<Rightarrow> st = style | _ \<Rightarrow> False)"

definition showsImage :: "string \<Rightarrow> Canvas \<Rightarrow> point \<Rightarrow> bool" where
  "showsImage src cv p =
     (case topOp cv p of Some (DrawImage sr alpha m rx ry rw rh) \<Rightarrow> sr = src | _ \<Rightarrow> False)"

subsection \<open>Magic Fill and Insert: submission\<close>

definition catchEdit :: "string \<Rightarrow> App \<Rightarrow> App" where
  "catchEdit m s = s\<lparr>error := Some (messageOr m), appState := EDITING\<rparr>"

text \<open>\<open>!finalSelection\<close> holds for \<open>null\<close> and for the empty string.\<close>

definition noSelection :: "string option \<Rightarrow> bool" where
  "noSelection sel = (case sel of None \<Rightarrow> True | Some str \<Rightarrow> str = [])"

definition submitRequest :: "Env \<Rightarrow> Request \<Rightarrow> App \<Rightarrow> App" where
  "submitRequest env req s =
     (let s2 = s\<lparr>backendCalls := backendCalls s @ [req]\<rparr>
      in case backend env req of
           Resolved resultImageUrl \<Rightarrow> s2\<lparr>resultData := Some resultImageUrl, appState := RESULT\<rparr>
         | Rejected m \<Rightarrow> catchEdit m s2)"

text \<open>
  \<open>handleEditSubmit\<close>. The final \<open>else\<close> of the source (\<open>Invalid edit mode selected\<close>) is
  behind the test that the tool is one of the two, so it is the \<open>Expand\<close> case below the guard.
\<close>

definition handleEditSubmit :: "Env \<Rightarrow> App \<Rightarrow> App" where
  "handleEditSubmit env s =
     (case (originalImage s, tool s) of
        (None, _) \<Rightarrow> s\<lparr>error := Some ''An unexpected error occurred. Please start over.''\<rparr>
      | (Some img, None) \<Rightarrow> s\<lparr>error := Some ''An unexpected error occurred. Please start over.''\<rparr>
      | (Some img, Some theTool) \<Rightarrow>
          if theTool \<noteq> Insert \<and> theTool \<noteq> MagicFill
          then s\<lparr>error := Some ''Invalid tool for this action.''\<rparr>
          else if noSelection (finalSelection s) \<and> theTool \<noteq> Insert
          then s\<lparr>error := Some ''Selection is missing. Please select an area on the image.'',
                 appState := EDITING\<rparr>
          else
            (let s1 = s\<lparr>error := None, appState := LOADING\<rparr>
             in case fileToDataUrl env (imageFile img) of
                  Rejected m \<Rightarrow> catchEdit m s1
                | Resolved originalDataUrl \<Rightarrow>
                    if theTool = MagicFill then
                      (if prompt s = []
                       then s1\<lparr>error := Some ''Please enter a text prompt to describe your edit.'',
                               appState := EDITING\<rparr>
                       else case finalSelection s of
                         None \<Rightarrow>
                           s1\<lparr>error := Some ''Selection is missing. Please select an area on the image.'',
                              appState := EDITING\<rparr>
                       | Some sel \<Rightarrow>
                           if sel = []
                           then s1\<lparr>error := Some ''Selection is missing. Please select an area on the image.'',
                                   appState := EDITING\<rparr>
                           else submitRequest env
                                  (EditImageWithText (prompt s) img sel (systemContext s))
                                  (s1\<lparr>loadingMessage := ''Applying AI magic...''\<rparr>))
                    else if theTool = Insert then
                      (case insertImage s of
                         None \<Rightarrow> s1\<lparr>error := Some ''Please upload an image to insert.'',
                                    appState := EDITING\<rparr>
                       | Some ins \<Rightarrow>
                           (let s2 = s1\<lparr>loadingMessage := ''Blending image...''\<rparr>
                            in case (naturalSize env (url img), naturalSize env (insertUrl ins)) of
                                 (None, _) \<Rightarrow> s2
                               | (Some natural, None) \<Rightarrow> s2
                               | (Some natural, Some (imgWidth, imgHeight)) \<Rightarrow>
                                   if \<not> compositeCtx env
                                   then catchEdit ''Could not create canvas context'' s2
                                   else if \<not> maskCtx env
                                   then catchEdit ''Could not create mask canvas context'' s2
                                   else submitRequest env
                                          (BlendImages img
                                             (compositeCanvas img natural ins
                                                (insertImageTransform s) imgWidth imgHeight)
                                             (maskCanvas img (insertImageTransform s) imgWidth imgHeight)
                                             ins)
                                          s2))
                    else catchEdit ''Invalid edit mode selected.'' s1))"

text \<open>
  The two buttons that submit. \<open>Insert & Blend\<close> of the placement panel runs
  \<open>setIsPlacingImage(false); handleEditSubmit()\<close>; the button of the last panel runs
  \<open>handleEditSubmit\<close> alone.
\<close>

definition insertAndBlendClick :: "Env \<Rightarrow> App \<Rightarrow> App" where
  "insertAndBlendClick env s = (handleEditSubmit env s)\<lparr>isPlacingImage := False\<rparr>"

subsection \<open>The Next Step button of the selection panel\<close>

text \<open>
  \<open>selection\<close> is the value of \<open>editorRef.current?.getMaskAsBase64()\<close>: \<open>None\<close> when the ref is
  empty, else the string returned. \<open>if (selection)\<close> fails for both \<open>undefined\<close> and the empty
  string.
\<close>

definition nextStepClick :: "string option \<Rightarrow> App \<Rightarrow> App" where
  "nextStepClick selection s =
     (case selection of
        None \<Rightarrow> s\<lparr>error := Some ''Please select an area before proceeding.''\<rparr>
      | Some sel \<Rightarrow>
          if sel \<noteq> []
          then s\<lparr>finalSelection := Some sel, isSelectionDone := True, error := None\<rparr>
          else s\<lparr>error := Some ''Please select an area before proceeding.''\<rparr>)"

subsection \<open>Cropping and Restore Original\<close>

definition handleStartCropping :: "App \<Rightarrow> App" where
  "handleStartCropping s =
     (let s1 = (if uncroppedOriginalImage s = None \<and> originalImage s \<noteq> None
                then s\<lparr>uncroppedOriginalImage := originalImage s\<rparr> else s)
      in s1\<lparr>isCropping := True\<rparr>)"

text \<open>
  \<open>editorRef.current?.clearMask()\<close> in the next two handlers acts on the stroke canvas of the
  \<open>ImageEditor\<close>, which is not part of this state.
\<close>

definition handleRestoreOriginal :: "App \<Rightarrow> App" where
  "handleRestoreOriginal s =
     (let s1 = (case uncroppedOriginalImage s of
                  Some uncropped \<Rightarrow>
                    s\<lparr>originalImage := Some uncropped, uncroppedOriginalImage := None,
                       isSelectionDone := False, finalSelection := None\<rparr>
                | None \<Rightarrow> s)
      in s1\<lparr>isCropping := False\<rparr>)"

text \<open>
  \<open>handleSaveCrop\<close>: \<open>fetch\<close> of the data URL gives the blob and its type, and
  \<open>getImageDimensions\<close> the size of the cropped image; that promise has no rejection path, so
  an image that does not load leaves the handler suspended.
\<close>

definition handleSaveCrop :: "Env \<Rightarrow> string \<Rightarrow> App \<Rightarrow> App" where
  "handleSaveCrop env croppedDataUrl s =
     (case fetchBlobType env croppedDataUrl of
        Rejected m \<Rightarrow> s\<lparr>error := Some ''Could not apply crop. Please try again.'', isCropping := False\<rparr>
      | Resolved blobType \<Rightarrow>
          (case naturalSize env croppedDataUrl of
             None \<Rightarrow> s
           | Some (w, h) \<Rightarrow>
               s\<lparr>originalImage :=
                    Some \<lparr>url = croppedDataUrl,
                          imageFile = \<lparr>fileName = ''cropped_'' @
                                         (case originalImage s of Some img \<Rightarrow> fileName (imageFile img)
                                          | None \<Rightarrow> ''undefined''),
                                       fileType = blobType\<rparr>,
                          width = w, height = h\<rparr>,
                  isSelectionDone := False, finalSelection := None, isCropping := False\<rparr>))"

text \<open>The Cancel button of the cropper: \<open>() => setIsCropping(false)\<close>.\<close>

definition cancelCrop :: "App \<Rightarrow> App" where
  "cancelCrop s = s\<lparr>isCropping := False\<rparr>"

text \<open>One crop: enter the cropper, apply a crop.\<close>

definition cropOnce :: "Env \<Rightarrow> string \<Rightarrow> App \<Rightarrow> App" where
  "cropOnce env croppedDataUrl s = handleSaveCrop env croppedDataUrl (handleStartCropping s)"

fun crops :: "Env \<Rightarrow> string list \<Rightarrow> App \<Rightarrow> App" where
  "crops env [] s = s"
| "crops env (u # us) s = crops env us (cropOnce env u s)"

section \<open>The brush editor (components/ImageEditor.tsx)\<close>

type_synonym byte = "8 word"

text \<open>
  The drawing canvas: its bitmap size, whether \<open>getContext('2d')\<close> yields a context, and the
  bitmap as \<open>getImageData(0, 0, width, height).data\<close> returns it, four bytes (red, green, blue,
  alpha) for each pixel, row by row.
\<close>

record StrokeCanvas =
  strokeWidth :: nat
  strokeHeight :: nat
  hasContext :: bool
  pixels :: "byte list"

definition wellFormed :: "StrokeCanvas \<Rightarrow> bool" where
  "wellFormed cv = (length (pixels cv) = 4 * (strokeWidth cv * strokeHeight cv))"

text \<open>A mouse event with its \<open>clientX\<close> and \<open>clientY\<close>, or a touch event with its \<open>touches\<close>.\<close>

datatype PointerEvent = MouseEvent real real | TouchEvent "point list"

text \<open>\<open>getBoundingClientRect()\<close>\<close>

record DOMRect =
  rectLeft :: real
  rectTop :: real
  rectWidth :: real
  rectHeight :: real

record Editor =
  drawingCanvas :: "StrokeCanvas option"
  isDrawing :: bool
  lastPoint :: "point option"

text \<open>
  \<open>getCoords\<close>. A bounding rectangle of width or height 0 makes the source divide by zero;
  the model is meant for rectangles of positive size.
\<close>

definition getCoords :: "StrokeCanvas option \<Rightarrow> DOMRect \<Rightarrow> PointerEvent \<Rightarrow> point option" where
  "getCoords canvasRef rect e =
     (case canvasRef of
        None \<Rightarrow> None
      | Some canvas \<Rightarrow>
          (let scaleX = real (strokeWidth canvas) / rectWidth rect;
               scaleY = real (strokeHeight canvas) / rectHeight rect
           in case e of
                TouchEvent [] \<Rightarrow> None
              | TouchEvent (t # ts) \<Rightarrow>
                  Some ((fst t - rectLeft rect) * scaleX, (snd t - rectTop rect) * scaleY)
              | MouseEvent clientX clientY \<Rightarrow>
                  Some ((clientX - rectLeft rect) * scaleX, (clientY - rectTop rect) * scaleY)))"

text \<open>
  The path \<open>draw\<close> strokes: a segment with round caps and joins in \<open>rgba(255, 255, 255, 0.5)\<close>.
  How the browser turns it into pixels is a parameter of the model, a function from the
  segment and the bitmap to the new bitmap.
\<close>

record Stroke =
  strokeFrom :: point
  strokeTo :: point
  lineWidth :: real

type_synonym rasteriser = "Stroke \<Rightarrow> nat \<Rightarrow> nat \<Rightarrow> byte list \<Rightarrow> byte list"

text \<open>
  \<open>draw\<close>. The test \<open>!isDrawing\<close> reads the state cell as the render in which the handler was
  created saw it.
\<close>

definition draw :: "rasteriser \<Rightarrow> real \<Rightarrow> DOMRect \<Rightarrow> PointerEvent \<Rightarrow> Editor \<Rightarrow> Editor" where
  "draw raster brushSize rect e ed =
     (if \<not> isDrawing ed then ed
      else case drawingCanvas ed of
        None \<Rightarrow> ed
      | Some canvas \<Rightarrow>
          if \<not> hasContext canvas then ed
          else case getCoords (drawingCanvas ed) rect e of
            None \<Rightarrow> ed
          | Some coords \<Rightarrow>
              (case lastPoint ed of
                 None \<Rightarrow> ed
               | Some lp \<Rightarrow>
                   (let scale = real (strokeWidth canvas) / rectWidth rect;
                        path = \<lparr>strokeFrom = lp, strokeTo = coords, lineWidth = brushSize * scale\<rparr>
                    in ed\<lparr>drawingCanvas :=
                            Some (canvas\<lparr>pixels := raster path (strokeWidth canvas)
                                                      (strokeHeight canvas) (pixels canvas)\<rparr>),
                          lastPoint := Some coords\<rparr>)))"

text \<open>
  \<open>startDrawing\<close>. \<open>setIsDrawing(true)\<close> takes effect with the next render, the assignment to
  the ref \<open>lastPoint.current\<close> at once; the call \<open>draw(e)\<close> is to the \<open>draw\<close> of the same render.
\<close>

definition startDrawing :: "rasteriser \<Rightarrow> real \<Rightarrow> DOMRect \<Rightarrow> PointerEvent \<Rightarrow> Editor \<Rightarrow> Editor" where
  "startDrawing raster brushSize rect e ed =
     (let ed1 = (case getCoords (drawingCanvas ed) rect e of
                   Some coords \<Rightarrow> draw raster brushSize rect e (ed\<lparr>lastPoint := Some coords\<rparr>)
                 | None \<Rightarrow> ed)
      in ed1\<lparr>isDrawing := True\<rparr>)"

definition stopDrawing :: "Editor \<Rightarrow> Editor" where
  "stopDrawing ed = (if \<not> isDrawing ed then ed else ed\<lparr>isDrawing := False, lastPoint := None\<rparr>)"

text \<open>\<open>clearCanvas\<close>: \<open>clearRect\<close> over the whole bitmap makes every pixel transparent black.\<close>

definition clearCanvas :: "Editor \<Rightarrow> Editor" where
  "clearCanvas ed =
     (case drawingCanvas ed of
        None \<Rightarrow> ed
      | Some canvas \<Rightarrow>
          if hasContext canvas
          then ed\<lparr>drawingCanvas := Some (canvas\<lparr>pixels := replicate (length (pixels canvas)) 0\<rparr>)\<rparr>
          else ed)"

text \<open>A tap: pointer down and pointer up at the same place, with no move between.\<close>

definition tap :: "rasteriser \<Rightarrow> real \<Rightarrow> DOMRect \<Rightarrow> PointerEvent \<Rightarrow> Editor \<Rightarrow> Editor" where
  "tap raster brushSize rect e ed = stopDrawing (startDrawing raster brushSize rect e ed)"

subsection \<open>getMaskAsBase64\<close>

text \<open>
  Reading \<open>data[i]\<close> past the end of a typed array gives \<open>undefined\<close>, and \<open>undefined > 0\<close> is
  false; writing past the end does nothing, as \<open>list_update\<close> does.
\<close>

definition alphaSet :: "byte list \<Rightarrow> nat \<Rightarrow> bool" where
  "alphaSet data i = (i + 3 < length data \<and> data ! (i + 3) > 0)"

definition put4 :: "byte list \<Rightarrow> nat \<Rightarrow> byte \<Rightarrow> byte \<Rightarrow> byte \<Rightarrow> byte \<Rightarrow> byte list" where
  "put4 maskData i r g b al = maskData[i := r, i + 1 := g, i + 2 := b, i + 3 := al]"

function maskLoop :: "byte list \<Rightarrow> nat \<Rightarrow> byte list \<Rightarrow> bool \<Rightarrow> byte list \<times> bool" where
  "maskLoop data i maskData hasMask =
     (if i < length data
      then if alphaSet data i
           then maskLoop data (i + 4) (put4 maskData i 255 255 255 255) True
           else maskLoop data (i + 4) (put4 maskData i 0 0 0 255) hasMask
      else (maskData, hasMask))"
  by pat_completeness auto
termination
  by (relation "measure (\<lambda>(data, i, maskData, hasMask). length data - i)") auto

datatype DOMException = IndexSizeError

text \<open>
  \<open>getMaskAsBase64\<close>. \<open>getImageData\<close> throws \<open>IndexSizeError\<close> for a rectangle of width or
  height 0. \<open>maskCanvasCtx\<close> says whether the second canvas gets a context, and \<open>toBase64\<close> is
  \<open>maskCanvas.toDataURL('image/png').split(',')[1]\<close> as a function of the size and the bytes put
  on that canvas.
\<close>

definition getMaskAsBase64 ::
  "(nat \<Rightarrow> nat \<Rightarrow> byte list \<Rightarrow> string) \<Rightarrow> bool \<Rightarrow> Editor \<Rightarrow> DOMException + string" where
  "getMaskAsBase64 toBase64 maskCanvasCtx ed =
     (case drawingCanvas ed of
        None \<Rightarrow> Inr []
      | Some canvas \<Rightarrow>
          if \<not> hasContext canvas then Inr []
          else if strokeWidth canvas = 0 \<or> strokeHeight canvas = 0 then Inl IndexSizeError
          else
            (let data = pixels canvas;
                 (maskData, hasMask) = maskLoop data 0 (replicate (length data) 0) False
             in if \<not> hasMask then Inr []
                else if \<not> maskCanvasCtx then Inr []
                else Inr (toBase64 (strokeWidth canvas) (strokeHeight canvas) maskData)))"

text \<open>The four bytes of pixel \<open>k\<close> of a bitmap, and its alpha byte.\<close>

definition pixel :: "byte list \<Rightarrow> nat \<Rightarrow> byte list" where
  "pixel data k = [data ! (4 * k), data ! (4 * k + 1), data ! (4 * k + 2), data ! (4 * k + 3)]"

definition alphaOf :: "byte list \<Rightarrow> nat \<Rightarrow> byte" where
  "alphaOf data k = data ! (4 * k + 3)"

text \<open>Some pixel of the bitmap has an alpha byte above 0.\<close>

definition anyAlpha :: "byte list \<Rightarrow> bool" where
  "anyAlpha data = list_ex (\<lambda>k. alphaOf data k > 0) [0 ..< length data div 4]"

text \<open>
  The value \<open>Next Step\<close> tests: \<open>editorRef.current?.getMaskAsBase64()\<close>, with \<open>editorRef.current\<close>
  the mounted editor or \<open>null\<close>. An exception thrown by the call leaves the click handler
  before it sets any state.
\<close>

definition nextStep ::
  "(nat \<Rightarrow> nat \<Rightarrow> byte list \<Rightarrow> string) \<Rightarrow> bool \<Rightarrow> Editor option \<Rightarrow> App \<Rightarrow> App" where
  "nextStep toBase64 maskCanvasCtx editorRef s =
     (case editorRef of
        None \<Rightarrow> nextStepClick None s
      | Some ed \<Rightarrow>
          (case getMaskAsBase64 toBase64 maskCanvasCtx ed of
             Inl exn \<Rightarrow> s
           | Inr selection \<Rightarrow> nextStepClick (Some selection) s))"

section \<open>The crop selector (components/ImageCropper.tsx)\<close>

text \<open>
  \<open>interface Crop\<close>, in display pixels relative to the container. The fields \<open>x\<close>, \<open>y\<close>,
  \<open>width\<close> and \<open>height\<close> of the source are called \<open>selX\<close>, \<open>selY\<close>, \<open>selWidth\<close> and
  \<open>selHeight\<close> here.
\<close>

record Crop =
  selX :: real
  selY :: real
  selWidth :: real
  selHeight :: real

record Cropper =
  crop :: "Crop option"
  isDragging :: bool
  startPoint :: "point option"

subsection \<open>Double-precision arithmetic\<close>

text \<open>
  The cropper computes with IEEE 754 binary64 numbers: each subtraction, multiplication and
  division gives the double nearest to the exact result, a tie going to the double with the
  even significand. Around a positive real \<open>x\<close> the doubles are the whole multiples of
  \<open>2\<close> to the power \<open>floor(log2 x) - 52\<close>, and of \<open>2\<close> to the power \<open>-1074\<close> for the
  subnormal numbers. Overflow to infinity, above \<open>2^1024\<close>, is not modelled.
\<close>

definition roundHalfEven :: "real \<Rightarrow> int" where
  "roundHalfEven q =
     (let f = \<lfloor>q\<rfloor>; r = q - of_int f
      in if r < 1 / 2 then f else if r > 1 / 2 then f + 1 else if even f then f else f + 1)"

definition ulpExponent :: "real \<Rightarrow> int" where
  "ulpExponent x = max (- 1074) (\<lfloor>log 2 x\<rfloor> - 52)"

definition toDouble :: "real \<Rightarrow> real" where
  "toDouble x =
     (if x = 0 then 0
      else sgn x * (of_int (roundHalfEven (\<bar>x\<bar> / 2 powi ulpExponent \<bar>x\<bar>))
                    * 2 powi ulpExponent \<bar>x\<bar>))"

definition dsub :: "real \<Rightarrow> real \<Rightarrow> real" where
  "dsub u v = toDouble (u - v)"

definition dmul :: "real \<Rightarrow> real \<Rightarrow> real" where
  "dmul u v = toDouble (u * v)"

definition ddiv :: "real \<Rightarrow> real \<Rightarrow> real" where
  "ddiv u v = toDouble (u / v)"

subsection \<open>The drag and the crop\<close>

text \<open>\<open>getCoords\<close> of the cropper; \<open>containerRect\<close> is \<open>None\<close> when the container ref is empty.\<close>

definition cropCoords :: "DOMRect option \<Rightarrow> PointerEvent \<Rightarrow> point option" where
  "cropCoords containerRect e =
     (case containerRect of
        None \<Rightarrow> None
      | Some rect \<Rightarrow>
          (case e of
             TouchEvent [] \<Rightarrow> None
           | TouchEvent (t # ts) \<Rightarrow>
               Some (dsub (fst t) (rectLeft rect), dsub (snd t) (rectTop rect))
           | MouseEvent clientX clientY \<Rightarrow>
               Some (dsub clientX (rectLeft rect), dsub clientY (rectTop rect))))"

definition handleDragStart :: "DOMRect option \<Rightarrow> PointerEvent \<Rightarrow> Cropper \<Rightarrow> Cropper" where
  "handleDragStart containerRect e c =
     (case cropCoords containerRect e of
        Some coords \<Rightarrow>
          c\<lparr>isDragging := True, startPoint := Some coords,
            crop := Some \<lparr>selX = fst coords, selY = snd coords, selWidth = 0, selHeight = 0\<rparr>\<rparr>
      | None \<Rightarrow> c)"

definition handleDragMove :: "DOMRect option \<Rightarrow> PointerEvent \<Rightarrow> Cropper \<Rightarrow> Cropper" where
  "handleDragMove containerRect e c =
     (if \<not> isDragging c then c
      else case startPoint c of
        None \<Rightarrow> c
      | Some start \<Rightarrow>
          (case cropCoords containerRect e of
             None \<Rightarrow> c
           | Some coords \<Rightarrow>
               c\<lparr>crop := Some \<lparr>selX = min (fst coords) (fst start),
                               selY = min (snd coords) (snd start),
                               selWidth = \<bar>dsub (fst coords) (fst start)\<bar>,
                               selHeight = \<bar>dsub (snd coords) (snd start)\<bar>\<rparr>\<rparr>))"

definition handleDragEnd :: "Cropper \<Rightarrow> Cropper" where
  "handleDragEnd c =
     (if \<not> isDragging c then c
      else
        (let c1 = c\<lparr>isDragging := False, startPoint := None\<rparr>
         in case crop c of
              Some k \<Rightarrow> if selWidth k < 5 \<or> selHeight k < 5 then c1\<lparr>crop := None\<rparr> else c1
            | None \<Rightarrow> c1))"

text \<open>The \<open>img\<close> element the cropper shows, as far as \<open>handleApplyCrop\<close> reads it.\<close>

record ImgElement =
  naturalWidth :: nat
  naturalHeight :: nat
  clientWidth :: nat
  clientHeight :: nat
  src :: string

text \<open>
  Assigning a number to \<open>canvas.width\<close> converts it to an \<open>unsigned long\<close>: the fraction is cut
  off and the result taken modulo \<open>2^32\<close>; a value above \<open>2^31 - 1\<close> is replaced by the default
  of the attribute (300 for the width, 150 for the height).
\<close>

definition integerPart :: "real \<Rightarrow> int" where
  "integerPart v = (if v \<ge> 0 then \<lfloor>v\<rfloor> else - \<lfloor>- v\<rfloor>)"

definition toUnsignedLong :: "real \<Rightarrow> nat" where
  "toUnsignedLong v = nat (integerPart v mod 2 ^ 32)"

definition setCanvasDim :: "nat \<Rightarrow> real \<Rightarrow> nat" where
  "setCanvasDim dflt v = (let n = toUnsignedLong v in if n \<le> 2147483647 then n else dflt)"

text \<open>
  \<open>handleApplyCrop\<close>. The result is what \<open>onCrop\<close> receives: the canvas and the type it is
  encoded in; \<open>None\<close> when the handler returns before calling \<open>onCrop\<close>. A displayed size of 0
  makes the source divide by zero; the model is meant for images displayed at a positive size.
\<close>

definition handleApplyCrop :: "ImgElement option \<Rightarrow> bool \<Rightarrow> Cropper \<Rightarrow> (Canvas \<times> string) option" where
  "handleApplyCrop imageRef cropCtx c =
     (case imageRef of
        None \<Rightarrow> None
      | Some img \<Rightarrow>
          (case crop c of
             None \<Rightarrow> None
           | Some k \<Rightarrow>
               if selWidth k = 0 \<or> selHeight k = 0 then None
               else
                 (let scaleX = ddiv (real (naturalWidth img)) (real (clientWidth img));
                      scaleY = ddiv (real (naturalHeight img)) (real (clientHeight img));
                      cropX = dmul (selX k) scaleX;
                      cropY = dmul (selY k) scaleY;
                      cropWidth = dmul (selWidth k) scaleX;
                      cropHeight = dmul (selHeight k) scaleY;
                      canvas = \<lparr>canvasWidth = setCanvasDim 300 cropWidth,
                                canvasHeight = setCanvasDim 150 cropHeight, ops = []\<rparr>
                  in if \<not> cropCtx then None
                     else Some (canvas\<lparr>ops := [DrawSubImage (src img) cropX cropY cropWidth cropHeight
                                                  0 0 cropWidth cropHeight]\<rparr>,
                                if startsWith (src img) ''data:image/png''
                                then ''image/png'' else ''image/jpeg''))))"

text \<open>
  The Apply Crop button. The cropper's \<open>onCrop\<close> is \<open>handleSaveCrop\<close>, and what it receives is
  \<open>canvas.toDataURL(type)\<close>; the encoder \<open>toDataURL\<close> is a parameter of the model.
\<close>

definition applyCropClick ::
  "(Canvas \<Rightarrow> string \<Rightarrow> string) \<Rightarrow> Env \<Rightarrow> ImgElement option \<Rightarrow> bool \<Rightarrow> Cropper \<Rightarrow> App \<Rightarrow> App" where
  "applyCropClick toDataURL env imageRef cropCtx c s =
     (case handleApplyCrop imageRef cropCtx c of
        None \<Rightarrow> s
      | Some (canvas, mimeType) \<Rightarrow> handleSaveCrop env (toDataURL canvas mimeType) s)"

text \<open>A whole drag: pointer down, the moves, pointer up.\<close>

fun dragMoves :: "DOMRect option \<Rightarrow> PointerEvent list \<Rightarrow> Cropper \<Rightarrow> Cropper" where
  "dragMoves containerRect [] c = c"
| "dragMoves containerRect (e # es) c = dragMoves containerRect es (handleDragMove containerRect e c)"

definition dragGesture :: "DOMRect option \<Rightarrow> PointerEvent \<Rightarrow> PointerEvent list \<Rightarrow> Cropper \<Rightarrow> Cropper" where
  "dragGesture containerRect down moves c =
     handleDragEnd (dragMoves containerRect moves (handleDragStart containerRect down c))"

section \<open>Auxiliary notions for the properties\<close>

text \<open>Every click of the sequence passes the cap test at the moment it is made.\<close>

fun accepted :: "Direction list \<Rightarrow> App \<Rightarrow> bool" where
  "accepted [] s = True"
| "accepted (d # ds) s =
     (totalClicks (expandSteps s) < MAX_EXPANSION_CLICKS \<and> accepted ds (handleExpandClick d s))"

text \<open>The oldest counters the undo history can lead back to.\<close>

definition oldest :: "App \<Rightarrow> ExpandSteps" where
  "oldest s = hd (expandHistory s @ [expandSteps s])"

text \<open>What the user has entered or set up, as opposed to the phase and the messages.\<close>

definition userData ::
  "App \<Rightarrow> string \<times> string option \<times> bool \<times> ImageTransform \<times> InsertImage option \<times>
     ExpandSteps \<times> ExpandSteps list \<times> nat \<times> Image option \<times> Image option \<times> Tool option \<times> string" where
  "userData s = (prompt s, finalSelection s, isSelectionDone s, insertImageTransform s,
     insertImage s, expandSteps s, expandHistory s, expansionStepSize s, originalImage s,
     uncroppedOriginalImage s, tool s, systemContext s)"

text \<open>The bytes \<open>getMaskAsBase64\<close> puts on the mask canvas, and its flag \<open>hasMask\<close>.\<close>

definition maskDataOf :: "byte list \<Rightarrow> byte list" where
  "maskDataOf data = fst (maskLoop data 0 (replicate (length data) 0) False)"

definition hasMaskOf :: "byte list \<Rightarrow> bool" where
  "hasMaskOf data = snd (maskLoop data 0 (replicate (length data) 0) False)"

text \<open>
  \<open>renderContent\<close> shows a button that runs \<open>handleEditSubmit\<close> only on the editing screen,
  outside the cropper, and once the selection step is done.
\<close>

definition editSubmitShown :: "App \<Rightarrow> bool" where
  "editSubmitShown s =
     (appState s = EDITING \<and> originalImage s \<noteq> None \<and> \<not> isCropping s \<and> isSelectionDone s)"

text \<open>The pixel of the binary mask that belongs to pixel \<open>k\<close> of the stroke bitmap.\<close>

definition binaryPixel :: "byte list \<Rightarrow> nat \<Rightarrow> byte list" where
  "binaryPixel data k = (if alphaOf data k > 0 then [255, 255, 255, 255] else [0, 0, 0, 255])"

text \<open>
  The matrix both canvases of the insert branch get from \<open>buildTransformMatrix\<close>, as the 2D
  context reads it, and the operation that draws the inserted image on the composite.
\<close>

definition placementMatrix :: "Image \<Rightarrow> ImageTransform \<Rightarrow> nat \<Rightarrow> nat \<Rightarrow> Matrix2D" where
  "placementMatrix img t imgWidth imgHeight =
     to2D (buildTransformMatrix t imgWidth imgHeight
             \<lparr>canvasWidth = width img, canvasHeight = height img, ops = []\<rparr>)"

definition insertOp :: "Image \<Rightarrow> InsertImage \<Rightarrow> ImageTransform \<Rightarrow> nat \<Rightarrow> nat \<Rightarrow> DrawOp" where
  "insertOp img ins t imgWidth imgHeight =
     DrawImage (insertUrl ins) (opacity t / 100) (placementMatrix img t imgWidth imgHeight)
       0 0 (real imgWidth) (real imgHeight)"

text \<open>The inserted image is the last thing drawn at a point of the composite.\<close>

definition objectDrawnAt ::
  "Image \<Rightarrow> nat \<times> nat \<Rightarrow> InsertImage \<Rightarrow> ImageTransform \<Rightarrow> nat \<Rightarrow> nat \<Rightarrow> point \<Rightarrow> bool" where
  "objectDrawnAt img natural ins t imgWidth imgHeight p =
     (topOp (compositeCanvas img natural ins t imgWidth imgHeight) p
        = Some (insertOp img ins t imgWidth imgHeight))"

text \<open>
  An image element loads the data URL of a canvas at the size of the canvas; a canvas without
  pixels encodes to \<open>data:,\<close>, which never loads.
\<close>

definition loadsEncoded :: "(Canvas \<Rightarrow> string \<Rightarrow> string) \<Rightarrow> Env \<Rightarrow> Canvas \<Rightarrow> string \<Rightarrow> bool" where
  "loadsEncoded toDataURL env canvas mimeType =
     (naturalSize env (toDataURL canvas mimeType) =
        (if 0 < canvasWidth canvas \<and> 0 < canvasHeight canvas
         then Some (canvasWidth canvas, canvasHeight canvas) else None))"

section \<open>Sample values\<close>

text \<open>The initial values of the \<open>useState\<close> cells of \<open>App\<close>.\<close>

definition initialApp :: App where
  "initialApp = \<lparr>appState = HOME, originalImage = None, uncroppedOriginalImage = None,
     insertImage = None, resultData = None, prompt = [], error = None,
     isSelectionDone = False, finalSelection = None, loadingMessage = [], systemContext = [],
     tool = None, isPlacingImage = False, insertImageTransform = defaultTransform,
     expansionStepSize = 128, expandSteps = zeroSteps, expandHistory = [], isCropping = False,
     backendCalls = []\<rparr>"

text \<open>A base image of 800 by 600 pixels and an image to insert, which loads at 50 by 50.\<close>

definition photo :: Image where
  "photo = \<lparr>url = ''data:image/png;base64,AAAA'',
            imageFile = \<lparr>fileName = ''photo.png'', fileType = ''image/png''\<rparr>,
            width = 800, height = 600\<rparr>"

definition sticker :: InsertImage where
  "sticker = \<lparr>insertUrl = ''data:image/png;base64,BBBB'',
              insertFile = \<lparr>fileName = ''sticker.png'', fileType = ''image/png''\<rparr>\<rparr>"

text \<open>The state after \<open>photo\<close> has been uploaded, as \<open>handleFileChange\<close> leaves it.\<close>

definition uploaded :: App where
  "uploaded = initialApp\<lparr>originalImage := Some photo, appState := TOOL_SELECTION\<rparr>"

text \<open>The state in which \<open>handleToolSelect\<close> opens the expansion screen for \<open>photo\<close>.\<close>

definition expandStart :: App where
  "expandStart = handleToolSelect Expand uploaded"

text \<open>
  An environment in which every canvas gets its context, the images load, and the backend
  answers with a result; and the same environment with a backend that fails.
\<close>

definition croppedUrl :: string where
  "croppedUrl = ''data:image/png;base64,CCCC''"

definition okEnv :: Env where
  "okEnv = \<lparr>expansionCtx = True, compositeCtx = True, maskCtx = True,
     naturalSize = (\<lambda>u. if u = url photo then Some (800, 600)
                        else if u = insertUrl sticker then Some (50, 50)
                        else if u = croppedUrl then Some (400, 300) else None),
     fileToDataUrl = (\<lambda>f. Resolved ''data:image/png;base64,AAAA''),
     fetchBlobType = (\<lambda>u. Resolved ''image/png''),
     backend = (\<lambda>req. Resolved ''data:image/png;base64,RRRR'')\<rparr>"

definition failingEnv :: Env where
  "failingEnv = okEnv\<lparr>backend := (\<lambda>req. Rejected ''Failed to edit image: 503'')\<rparr>"

text \<open>The expansion screen after clicks on right, right and left, with a prompt typed.\<close>

definition expanded :: App where
  "expanded = (clicks [DRight, DRight, DLeft] expandStart)\<lparr>prompt := ''a beach at sunset''\<rparr>"

text \<open>
  The editing screen of Magic Fill with a selection confirmed and a prompt typed, and that of
  Insert with \<open>sticker\<close> uploaded and placed at the centre at full scale.
\<close>

definition magicFillReady :: App where
  "magicFillReady =
     (nextStepClick (Some ''iVBORw0KGgo='') (handleToolSelect MagicFill uploaded))
       \<lparr>prompt := ''remove the object''\<rparr>"

definition insertReady :: App where
  "insertReady =
     (nextStepClick (Some ''iVBORw0KGgo='') (handleToolSelect Insert uploaded))
       \<lparr>insertImage := Some sticker, isPlacingImage := True,
        insertImageTransform := defaultTransform\<lparr>scale := 100\<rparr>\<rparr>"

text \<open>
  A stroke canvas of two pixels by one: the first pixel carries a brush mark (white at half
  opacity), the second is untouched. And a stand-in for the PNG encoder.
\<close>

definition dabbed :: StrokeCanvas where
  "dabbed = \<lparr>strokeWidth = 2, strokeHeight = 1, hasContext = True,
             pixels = [255, 255, 255, 128, 0, 0, 0, 0]\<rparr>"

definition blank :: StrokeCanvas where
  "blank = \<lparr>strokeWidth = 2, strokeHeight = 1, hasContext = True, pixels = replicate 8 0\<rparr>"

definition samplePng :: "nat \<Rightarrow> nat \<Rightarrow> byte list \<Rightarrow> string" where
  "samplePng w h bytes = ''iVBORw0KGgo=''"

text \<open>The editor with a given canvas and no stroke in progress.\<close>

definition idle :: "StrokeCanvas \<Rightarrow> Editor" where
  "idle cv = \<lparr>drawingCanvas = Some cv, isDrawing = False, lastPoint = None\<rparr>"

text \<open>
  The editor on screen at the size of its bitmap, and editors whose canvas ref is empty or
  whose canvas has no context.
\<close>

definition bitmapRect :: DOMRect where
  "bitmapRect = \<lparr>rectLeft = 0, rectTop = 0, rectWidth = 2, rectHeight = 1\<rparr>"

definition unmounted :: Editor where
  "unmounted = \<lparr>drawingCanvas = None, isDrawing = False, lastPoint = None\<rparr>"

definition contextless :: Editor where
  "contextless = idle (dabbed\<lparr>hasContext := False\<rparr>)"

text \<open>
  A cropper showing an 1100 by 1100 image at 1000 by 1000 display pixels, a drag from (10, 10)
  to (17, 17) on it, and a drag from (10, 10) to (13, 40).
\<close>

definition freshCropper :: Cropper where
  "freshCropper = \<lparr>crop = None, isDragging = False, startPoint = None\<rparr>"

definition shownRect :: DOMRect where
  "shownRect = \<lparr>rectLeft = 0, rectTop = 0, rectWidth = 1000, rectHeight = 1000\<rparr>"

definition shownImg :: ImgElement where
  "shownImg = \<lparr>naturalWidth = 1100, naturalHeight = 1100, clientWidth = 1000, clientHeight = 1000,
     src = ''data:image/png;base64,AAAA''\<rparr>"

definition dragged :: Cropper where
  "dragged = dragGesture (Some shownRect) (MouseEvent 10 10) [MouseEvent 17 17] freshCropper"

definition nudged :: Cropper where
  "nudged = dragGesture (Some shownRect) (MouseEvent 10 10) [MouseEvent 13 40] freshCropper"

text \<open>The same two drags just before the pointer is released.\<close>

definition midDrag :: Cropper where
  "midDrag = dragMoves (Some shownRect) [MouseEvent 17 17]
               (handleDragStart (Some shownRect) (MouseEvent 10 10) freshCropper)"

definition midNudge :: Cropper where
  "midNudge = dragMoves (Some shownRect) [MouseEvent 13 40]
                (handleDragStart (Some shownRect) (MouseEvent 10 10) freshCropper)"

text \<open>
  Three placements of the 50 by 50 \<open>sticker\<close> at full scale: at the centre of the base image,
  at its top left corner, and at the centre but tilted by 90 degrees about the vertical axis.
\<close>

definition centred :: ImageTransform where
  "centred = defaultTransform\<lparr>scale := 100\<rparr>"

definition cornered :: ImageTransform where
  "cornered = defaultTransform\<lparr>posX := 0, posY := 0, scale := 100\<rparr>"

definition edgeOn :: ImageTransform where
  "edgeOn = defaultTransform\<lparr>scale := 100, rotateY := 90\<rparr>"

text \<open>
  A drag from (10, 10) to (15, 15) on a 10 by 10 image shown at 1000 by 1000 display pixels, a
  selection of 45 by 45 display pixels on a 700 by 700 image shown at 500 by 500, and an
  encoder and an environment for the drag of 7 by 7 on \<open>shownImg\<close>.
\<close>

definition tinyImg :: ImgElement where
  "tinyImg = \<lparr>naturalWidth = 10, naturalHeight = 10, clientWidth = 1000, clientHeight = 1000,
     src = ''data:image/png;base64,AAAA''\<rparr>"

definition midTiny :: Cropper where
  "midTiny = dragMoves (Some shownRect) [MouseEvent 15 15]
               (handleDragStart (Some shownRect) (MouseEvent 10 10) freshCropper)"

definition zoomedOutImg :: ImgElement where
  "zoomedOutImg = \<lparr>naturalWidth = 700, naturalHeight = 700, clientWidth = 500, clientHeight = 500,
     src = ''data:image/png;base64,AAAA''\<rparr>"

definition selected45 :: Cropper where
  "selected45 = \<lparr>crop = Some \<lparr>selX = 0, selY = 0, selWidth = 45, selHeight = 45\<rparr>,
                  isDragging = False, startPoint = None\<rparr>"

definition sampleDataURL :: "Canvas \<Rightarrow> string \<Rightarrow> string" where
  "sampleDataURL canvas mimeType =
     (if 0 < canvasWidth canvas \<and> 0 < canvasHeight canvas then croppedUrl else ''data:,'')"

definition cropEnv :: Env where
  "cropEnv = okEnv\<lparr>naturalSize := (\<lambda>u. if u = croppedUrl then Some (7, 7) else None)\<rparr>"

section \<open>Properties of Magic Expand\<close>

lemma totalClicks_sum: "totalClicks st = top st + right st + bottom st + left st"
  by (simp add: totalClicks_def)

lemma bumpSteps_cases:
  "bumpSteps DTop st = st\<lparr>top := top st + 1\<rparr>"
  "bumpSteps DRight st = st\<lparr>right := right st + 1\<rparr>"
  "bumpSteps DBottom st = st\<lparr>bottom := bottom st + 1\<rparr>"
  "bumpSteps DLeft st = st\<lparr>left := left st + 1\<rparr>"
  "bumpSteps DTopLeft st = st\<lparr>top := top st + 1, left := left st + 1\<rparr>"
  "bumpSteps DTopRight st = st\<lparr>top := top st + 1, right := right st + 1\<rparr>"
  "bumpSteps DBottomLeft st = st\<lparr>bottom := bottom st + 1, left := left st + 1\<rparr>"
  "bumpSteps DBottomRight st = st\<lparr>bottom := bottom st + 1, right := right st + 1\<rparr>"
  by (simp_all add: bumpSteps_def)

lemma clicks_append: "clicks (ds @ es) s = clicks es (clicks ds s)"
  by (induction ds arbitrary: s) simp_all

lemma accepted_append:
  "accepted (ds @ es) s = (accepted ds s \<and> accepted es (clicks ds s))"
  by (induction ds arbitrary: s) auto

lemma expandStart_steps:
  "expandSteps expandStart = zeroSteps"
  "expandHistory expandStart = []"
  by (simp_all add: expandStart_def handleToolSelect_def uploaded_def initialApp_def)

text \<open>A click that the cap rejects leaves the counters and the history as they are.\<close>

lemma handleExpandClick_rejected:
  "totalClicks (expandSteps s) \<ge> MAX_EXPANSION_CLICKS \<Longrightarrow>
     expandSteps (handleExpandClick d s) = expandSteps s \<and>
     expandHistory (handleExpandClick d s) = expandHistory s"
  by (simp add: handleExpandClick_def)

text \<open>A click adds one or two to the sum, so the sum stays at or below seven.\<close>

lemma totalClicks_bumpSteps:
  "totalClicks st < totalClicks (bumpSteps d st) \<and> totalClicks (bumpSteps d st) \<le> totalClicks st + 2"
  by (cases d) (simp_all add: bumpSteps_cases totalClicks_sum)

lemma handleExpandClick_le7:
  "totalClicks (expandSteps s) \<le> 7 \<Longrightarrow> totalClicks (expandSteps (handleExpandClick d s)) \<le> 7"
  using totalClicks_bumpSteps [of "expandSteps s" d]
  by (auto simp: handleExpandClick_def MAX_EXPANSION_CLICKS_def)

lemma clicks_le7:
  "totalClicks (expandSteps s) \<le> 7 \<Longrightarrow> totalClicks (expandSteps (clicks ds s)) \<le> 7"
  by (induction ds arbitrary: s) (simp_all add: handleExpandClick_le7)

text \<open>
  C1. The sum of the four counters is claimed never to exceed 6. Five clicks on \<open>top\<close> bring
  the sum to 5, which passes the test \<open>totalClicks >= 6\<close>; a click on \<open>top-left\<close> then adds
  two, and the sum is 7.
\<close>

theorem C1_cap_overshoot:
  "expandSteps (clicks [DTop, DTop, DTop, DTop, DTop] expandStart)
     = \<lparr>top = 5, right = 0, bottom = 0, left = 0\<rparr> \<and>
   expandSteps (clicks [DTop, DTop, DTop, DTop, DTop, DTopLeft] expandStart)
     = \<lparr>top = 6, right = 0, bottom = 0, left = 1\<rparr> \<and>
   totalClicks (expandSteps (clicks [DTop, DTop, DTop, DTop, DTop, DTopLeft] expandStart)) = 7 \<and>
   MAX_EXPANSION_CLICKS = 6"
  by (simp add: handleExpandClick_def expandStart_steps zeroSteps_def MAX_EXPANSION_CLICKS_def
      bumpSteps_cases totalClicks_sum)

lemma undo_click:
  assumes "totalClicks (expandSteps s) < MAX_EXPANSION_CLICKS"
  shows "handleUndoExpand (handleExpandClick d s) = s"
  using assms by (simp add: handleUndoExpand_def handleExpandClick_def)

lemma undos_clicks:
  "accepted ds s \<Longrightarrow> undos (length ds) (clicks ds s) = s"
proof (induction ds arbitrary: s rule: rev_induct)
  case Nil
  then show ?case by simp
next
  case (snoc d ds)
  then have a: "accepted ds s" and b: "totalClicks (expandSteps (clicks ds s)) < MAX_EXPANSION_CLICKS"
    by (simp_all add: accepted_append)
  have "undos (length (ds @ [d])) (clicks (ds @ [d]) s)
        = undos (length ds) (handleUndoExpand (handleExpandClick d (clicks ds s)))"
    by (simp add: clicks_append)
  also have "\<dots> = undos (length ds) (clicks ds s)"
    by (simp add: undo_click [OF b])
  also have "\<dots> = s" by (rule snoc.IH [OF a])
  finally show ?case .
qed

lemma oldest_click: "oldest (handleExpandClick d s) = oldest s"
  by (simp add: oldest_def handleExpandClick_def hd_append)

lemma oldest_clicks: "oldest (clicks ds s) = oldest s"
  by (induction ds arbitrary: s) (simp_all add: oldest_click)

lemma undos_all:
  "expandSteps (undos (length (expandHistory s)) s) = oldest s \<and>
   expandHistory (undos (length (expandHistory s)) s) = []"
proof (induction "length (expandHistory s)" arbitrary: s)
  case 0
  then show ?case by (simp add: oldest_def)
next
  case (Suc n)
  then have ne: "expandHistory s \<noteq> []" by auto
  let ?s' = "handleUndoExpand s"
  have h: "expandHistory ?s' = butlast (expandHistory s)"
    and st: "expandSteps ?s' = last (expandHistory s)"
    using ne by (simp_all add: handleUndoExpand_def last_conv_nth)
  have len: "n = length (expandHistory ?s')" using Suc.hyps(2) h by simp
  have old: "oldest ?s' = oldest s"
    using ne by (simp add: oldest_def h st hd_append)
  from Suc.hyps(1) [OF len] old Suc.hyps(2) [symmetric] len show ?case by simp
qed

text \<open>
  C8. When the clicks \<open>ds\<close> and then \<open>d\<close> are all accepted, the last click appends the counters
  it found to the history, and one undo gives back the whole state as it was after \<open>ds\<close>;
  as many undos as there were accepted clicks give back the state before the first of them.
  From zero counters and an empty history, undoing as often as the history is long leads back
  to zero counters and an empty history, whatever was clicked. An undo on an empty history
  changes nothing.
\<close>

theorem C8_undo_restores:
  "(accepted (ds @ [d]) s \<longrightarrow>
      expandHistory (clicks (ds @ [d]) s)
        = expandHistory (clicks ds s) @ [expandSteps (clicks ds s)] \<and>
      handleUndoExpand (clicks (ds @ [d]) s) = clicks ds s) \<and>
   (accepted ds s \<longrightarrow> undos (length ds) (clicks ds s) = s) \<and>
   (expandSteps s = zeroSteps \<and> expandHistory s = [] \<longrightarrow>
      expandSteps (undos (length (expandHistory (clicks ds s))) (clicks ds s)) = zeroSteps \<and>
      expandHistory (undos (length (expandHistory (clicks ds s))) (clicks ds s)) = []) \<and>
   (expandHistory s = [] \<longrightarrow> handleUndoExpand s = s)"
proof (intro conjI impI)
  assume "accepted (ds @ [d]) s"
  then have b: "totalClicks (expandSteps (clicks ds s)) < MAX_EXPANSION_CLICKS"
    by (simp add: accepted_append)
  then show "expandHistory (clicks (ds @ [d]) s)
        = expandHistory (clicks ds s) @ [expandSteps (clicks ds s)]"
    by (simp add: clicks_append handleExpandClick_def)
  from b show "handleUndoExpand (clicks (ds @ [d]) s) = clicks ds s"
    by (simp add: clicks_append undo_click)
next
  assume "accepted ds s"
  then show "undos (length ds) (clicks ds s) = s" by (rule undos_clicks)
next
  assume a: "expandSteps s = zeroSteps \<and> expandHistory s = []"
  then have z: "oldest (clicks ds s) = zeroSteps"
    by (simp add: oldest_clicks) (simp add: oldest_def)
  from undos_all [of "clicks ds s"] z
  show "expandSteps (undos (length (expandHistory (clicks ds s))) (clicks ds s)) = zeroSteps"
    by simp
  from undos_all [of "clicks ds s"]
  show "expandHistory (undos (length (expandHistory (clicks ds s))) (clicks ds s)) = []"
    by simp
next
  assume "expandHistory s = []"
  then show "handleUndoExpand s = s" by (simp add: handleUndoExpand_def)
qed

theorem C8_undo_restores_witness:
  "accepted ([DRight, DRight] @ [DTopLeft]) expandStart \<and>
   expandHistory (clicks ([DRight, DRight] @ [DTopLeft]) expandStart)
     = expandHistory (clicks [DRight, DRight] expandStart)
       @ [expandSteps (clicks [DRight, DRight] expandStart)] \<and>
   handleUndoExpand (clicks ([DRight, DRight] @ [DTopLeft]) expandStart)
     = clicks [DRight, DRight] expandStart \<and>
   undos (length [DRight, DRight]) (clicks [DRight, DRight] expandStart) = expandStart \<and>
   expandSteps (undos (length (expandHistory (clicks [DRight, DRight] expandStart)))
     (clicks [DRight, DRight] expandStart)) = zeroSteps \<and>
   handleUndoExpand expandStart = expandStart"
proof -
  have acc: "accepted ([DRight, DRight] @ [DTopLeft]) expandStart"
    by (simp add: handleExpandClick_def expandStart_steps zeroSteps_def MAX_EXPANSION_CLICKS_def
        bumpSteps_cases totalClicks_sum)
  then have acc2: "accepted [DRight, DRight] expandStart"
    by (simp only: accepted_append)
  from acc acc2 C8_undo_restores [of "[DRight, DRight]" DTopLeft expandStart]
  show ?thesis by (simp add: expandStart_steps)
qed

section \<open>Properties of the expansion canvas\<close>

lemma unapply2D_identity [simp]: "unapply2D identity2D p = p"
  by (cases p) (simp add: identity2D_def)

lemma det2D_identity [simp]: "det2D identity2D = 1"
  by (simp add: identity2D_def)

lemma expansionCanvas_size:
  "canvasWidth (expansionCanvas img steps stepSize) = width img + (left steps + right steps) * stepSize"
  "canvasHeight (expansionCanvas img steps stepSize) = height img + (top steps + bottom steps) * stepSize"
  by (simp_all add: expansionCanvas_def Let_def)

lemma expansionCanvas_ops:
  "ops (expansionCanvas img steps stepSize) =
     [FillRect ''#808080'' identity2D 0 0
        (real (width img + (left steps + right steps) * stepSize))
        (real (height img + (top steps + bottom steps) * stepSize)),
      DrawImage (url img) 1 identity2D (real (left steps * stepSize)) (real (top steps * stepSize))
        (real (width img)) (real (height img))]"
  by (simp add: expansionCanvas_def Let_def)

lemma expansionCanvas_fill_covers:
  "inCanvas (expansionCanvas img steps stepSize) p \<Longrightarrow>
   covers (hd (ops (expansionCanvas img steps stepSize))) p"
  by (simp add: expansionCanvas_ops inCanvas_def expansionCanvas_size)

lemma expansionCanvas_image_inside:
  assumes "inRect (real (left steps * stepSize)) (real (top steps * stepSize))
          (real (width img)) (real (height img)) p"
  shows "inCanvas (expansionCanvas img steps stepSize) p"
proof -
  have n: "0 \<le> real (left steps * stepSize)" "0 \<le> real (top steps * stepSize)"
    "0 \<le> real (right steps * stepSize)" "0 \<le> real (bottom steps * stepSize)"
    by simp_all
  have w: "real (width img + (left steps + right steps) * stepSize)
           = real (width img) + real (left steps * stepSize) + real (right steps * stepSize)"
    and h: "real (height img + (top steps + bottom steps) * stepSize)
           = real (height img) + real (top steps * stepSize) + real (bottom steps * stepSize)"
    by (simp_all add: algebra_simps)
  from assms n show ?thesis
    unfolding inCanvas_def inRect_def expansionCanvas_size w h by linarith
qed

lemma expansionCanvas_top:
  "inCanvas (expansionCanvas img steps stepSize) p \<Longrightarrow>
   topOp (expansionCanvas img steps stepSize) p =
     Some (if inRect (real (left steps * stepSize)) (real (top steps * stepSize))
                     (real (width img)) (real (height img)) p
           then DrawImage (url img) 1 identity2D (real (left steps * stepSize))
                  (real (top steps * stepSize)) (real (width img)) (real (height img))
           else FillRect ''#808080'' identity2D 0 0
                  (real (canvasWidth (expansionCanvas img steps stepSize)))
                  (real (canvasHeight (expansionCanvas img steps stepSize))))"
  by (simp add: topOp_def expansionCanvas_ops expansionCanvas_size inCanvas_def)

lemma handleExpandSubmit_calls:
  "originalImage s = Some img \<Longrightarrow> expansionCtx env \<Longrightarrow> naturalSize env (url img) = Some sz \<Longrightarrow>
   backendCalls (handleExpandSubmit env s) =
     backendCalls s @ [ExpandImage (prompt s) (expansionCanvas img (expandSteps s) (expansionStepSize s))
                         (fileType (imageFile img))]"
  by (simp add: handleExpandSubmit_def Let_def catchExpand_def split: outcome.splits)

text \<open>
  C5. The canvas built for an image, step counts and a step size is as wide as the image plus
  (left + right) steps and as high as the image plus (top + bottom) steps. The first thing
  drawn on it is a fill with \<open>#808080\<close> that covers every point of it. The second and last is
  the image, at offset (left * step, top * step), in a rectangle of the image's own width and
  height and under the identity transform; that rectangle lies within the canvas. So a point
  of the canvas shows the image when it is in that rectangle and the gray fill when it is not.
  This canvas is what \<open>handleExpandSubmit\<close> passes to \<open>expandImage\<close>.
\<close>

theorem C5_expansion_canvas:
  fixes img :: Image and steps :: ExpandSteps and stepSize :: nat
  defines "cv \<equiv> expansionCanvas img steps stepSize"
  defines "dx \<equiv> real (left steps * stepSize)" and "dy \<equiv> real (top steps * stepSize)"
  shows "canvasWidth cv = width img + (left steps + right steps) * stepSize \<and>
         canvasHeight cv = height img + (top steps + bottom steps) * stepSize \<and>
         ops cv = [FillRect ''#808080'' identity2D 0 0 (real (canvasWidth cv)) (real (canvasHeight cv)),
                   DrawImage (url img) 1 identity2D dx dy (real (width img)) (real (height img))] \<and>
         (inCanvas cv p \<longrightarrow> covers (hd (ops cv)) p) \<and>
         (inRect dx dy (real (width img)) (real (height img)) p \<longrightarrow>
            inCanvas cv p \<and> showsImage (url img) cv p) \<and>
         (inCanvas cv p \<and> \<not> inRect dx dy (real (width img)) (real (height img)) p \<longrightarrow>
            paintedWith ''#808080'' cv p \<and> \<not> showsImage (url img) cv p) \<and>
         (originalImage s = Some img \<and> expansionCtx env \<and> naturalSize env (url img) \<noteq> None \<longrightarrow>
            backendCalls (handleExpandSubmit env s) =
              backendCalls s @ [ExpandImage (prompt s)
                                  (expansionCanvas img (expandSteps s) (expansionStepSize s))
                                  (fileType (imageFile img))])"
proof (intro conjI impI)
  show "canvasWidth cv = width img + (left steps + right steps) * stepSize"
    and "canvasHeight cv = height img + (top steps + bottom steps) * stepSize"
    by (simp_all add: cv_def expansionCanvas_size)
  show "ops cv = [FillRect ''#808080'' identity2D 0 0 (real (canvasWidth cv)) (real (canvasHeight cv)),
                   DrawImage (url img) 1 identity2D dx dy (real (width img)) (real (height img))]"
    by (simp add: cv_def dx_def dy_def expansionCanvas_ops expansionCanvas_size)
next
  assume "inCanvas cv p"
  then show "covers (hd (ops cv)) p"
    unfolding cv_def by (rule expansionCanvas_fill_covers)
next
  assume a: "inRect dx dy (real (width img)) (real (height img)) p"
  then show c: "inCanvas cv p"
    unfolding cv_def dx_def dy_def by (rule expansionCanvas_image_inside)
  from a expansionCanvas_top [OF c [unfolded cv_def]]
  show "showsImage (url img) cv p"
    by (simp add: showsImage_def cv_def dx_def dy_def)
next
  assume a: "inCanvas cv p \<and> \<not> inRect dx dy (real (width img)) (real (height img)) p"
  then have c: "inCanvas (expansionCanvas img steps stepSize) p" by (simp add: cv_def)
  from a expansionCanvas_top [OF c]
  show "paintedWith ''#808080'' cv p" and "\<not> showsImage (url img) cv p"
    by (simp_all add: paintedWith_def showsImage_def cv_def dx_def dy_def)
next
  assume "originalImage s = Some img \<and> expansionCtx env \<and> naturalSize env (url img) \<noteq> None"
  then show "backendCalls (handleExpandSubmit env s) =
              backendCalls s @ [ExpandImage (prompt s)
                                  (expansionCanvas img (expandSteps s) (expansionStepSize s))
                                  (fileType (imageFile img))]"
    by (auto intro: handleExpandSubmit_calls)
qed

lemma expandStart_fields:
  "expansionStepSize expandStart = 150"
  "originalImage expandStart = Some photo"
  "appState expandStart = EXPANDING"
  "backendCalls expandStart = []"
  by (simp_all add: expandStart_def handleToolSelect_def uploaded_def initialApp_def photo_def)

lemma click_frame:
  "expansionStepSize (handleExpandClick d s) = expansionStepSize s"
  "originalImage (handleExpandClick d s) = originalImage s"
  "appState (handleExpandClick d s) = appState s"
  "backendCalls (handleExpandClick d s) = backendCalls s"
  "prompt (handleExpandClick d s) = prompt s"
  by (simp_all add: handleExpandClick_def)

lemma expanded_fields:
  "expandSteps expanded = \<lparr>top = 0, right = 2, bottom = 0, left = 1\<rparr>"
  "expandHistory expanded = [zeroSteps, zeroSteps\<lparr>right := 1\<rparr>, zeroSteps\<lparr>right := 2\<rparr>]"
  "expansionStepSize expanded = 150"
  "originalImage expanded = Some photo"
  "appState expanded = EXPANDING"
  "backendCalls expanded = []"
  "prompt expanded = ''a beach at sunset''"
  by (simp_all add: expanded_def click_frame expandStart_fields)
     (simp_all add: handleExpandClick_def expandStart_steps zeroSteps_def MAX_EXPANSION_CLICKS_def
        bumpSteps_cases totalClicks_sum)

text \<open>
  An instance: \<open>photo\<close> is 800 by 600, its step 150; with two steps to the right and one to
  the left the canvas is 1250 by 600 and the image sits at (150, 0).
\<close>

theorem C5_expansion_canvas_witness:
  "canvasWidth (expansionCanvas photo (expandSteps expanded) 150) = 1250 \<and>
   canvasHeight (expansionCanvas photo (expandSteps expanded) 150) = 600 \<and>
   inRect 150 0 800 600 (200, 100) \<and>
   showsImage (url photo) (expansionCanvas photo (expandSteps expanded) 150) (200, 100) \<and>
   inCanvas (expansionCanvas photo (expandSteps expanded) 150) (1200, 300) \<and>
   \<not> inRect 150 0 800 600 (1200, 300) \<and>
   paintedWith ''#808080'' (expansionCanvas photo (expandSteps expanded) 150) (1200, 300) \<and>
   backendCalls (handleExpandSubmit okEnv expanded) =
     [ExpandImage ''a beach at sunset'' (expansionCanvas photo (expandSteps expanded) 150) ''image/png'']"
proof -
  have r1: "inRect 150 0 800 600 (200, 100)" and r2: "\<not> inRect 150 0 800 600 (1200, 300)"
    by (simp_all add: inRect_def)
  have c2: "inCanvas (expansionCanvas photo (expandSteps expanded) 150) (1200, 300)"
    by (simp add: inCanvas_def inRect_def expansionCanvas_size expanded_fields photo_def)
  have e: "originalImage expanded = Some photo \<and> expansionCtx okEnv \<and>
           naturalSize okEnv (url photo) \<noteq> None"
    by (simp add: expanded_fields okEnv_def)
  from r1 r2 c2 e
    C5_expansion_canvas [of photo "expandSteps expanded" 150 "(200, 100)" expanded okEnv]
    C5_expansion_canvas [of photo "expandSteps expanded" 150 "(1200, 300)" expanded okEnv]
  show ?thesis
    by (simp add: expanded_fields photo_def)
qed

section \<open>Properties of submission\<close>

lemma submitRequest_rejected:
  "backend env req = Rejected m \<Longrightarrow>
   submitRequest env req s =
     s\<lparr>backendCalls := backendCalls s @ [req], error := Some (messageOr m), appState := EDITING\<rparr>"
  by (simp add: submitRequest_def catchEdit_def Let_def)

lemma submitRequest_calls:
  "backendCalls (submitRequest env req s) = backendCalls s @ [req]"
  by (simp add: submitRequest_def catchEdit_def Let_def split: outcome.splits)

lemma handleEditSubmit_shape:
  "backendCalls (handleEditSubmit env s) = backendCalls s \<or>
   (\<exists>req lm. handleEditSubmit env s =
      submitRequest env req (s\<lparr>error := None, appState := LOADING, loadingMessage := lm\<rparr>))"
proof (cases "originalImage s")
  case None
  then show ?thesis by (simp add: handleEditSubmit_def)
next
  case (Some img)
  note img = this
  show ?thesis
  proof (cases "tool s")
    case None
    with img show ?thesis by (simp add: handleEditSubmit_def)
  next
    case (Some t)
    show ?thesis
    proof (cases t)
      case MagicFill
      with img Some show ?thesis
        by (simp add: handleEditSubmit_def catchEdit_def Let_def split: outcome.splits option.splits)
           blast
    next
      case Insert
      with img Some show ?thesis
        by (simp add: handleEditSubmit_def catchEdit_def Let_def
            split: outcome.splits option.splits prod.splits) blast
    next
      case Expand
      with img Some show ?thesis by (simp add: handleEditSubmit_def)
    qed
  qed
qed

lemma handleEditSubmit_rejected:
  assumes c: "backendCalls (handleEditSubmit env s) = backendCalls s @ [req]"
    and r: "backend env req = Rejected m"
  shows "\<exists>lm. handleEditSubmit env s =
     s\<lparr>error := Some (messageOr m), appState := EDITING, loadingMessage := lm,
       backendCalls := backendCalls s @ [req]\<rparr>"
proof -
  from handleEditSubmit_shape [of env s] c
  obtain req' lm where e: "handleEditSubmit env s =
      submitRequest env req' (s\<lparr>error := None, appState := LOADING, loadingMessage := lm\<rparr>)"
    by auto
  with c have "req' = req" by (simp add: submitRequest_calls)
  with e r have "handleEditSubmit env s =
     s\<lparr>error := Some (messageOr m), appState := EDITING, loadingMessage := lm,
       backendCalls := backendCalls s @ [req]\<rparr>"
    by (simp add: submitRequest_rejected)
  then show ?thesis ..
qed

lemma handleExpandSubmit_rejected:
  assumes c: "backendCalls (handleExpandSubmit env s) = backendCalls s @ [req]"
    and r: "backend env req = Rejected m"
  shows "handleExpandSubmit env s =
     s\<lparr>error := Some (messageOr m), appState := EXPANDING,
       loadingMessage := ''Expanding your canvas...'',
       backendCalls := backendCalls s @ [req]\<rparr>"
proof (cases "originalImage s")
  case None
  with c show ?thesis by (simp add: handleExpandSubmit_def)
next
  case (Some img)
  note img = this
  show ?thesis
  proof (cases "expansionCtx env")
    case False
    with img c show ?thesis by (simp add: handleExpandSubmit_def catchExpand_def Let_def)
  next
    case True
    show ?thesis
    proof (cases "naturalSize env (url img)")
      case None
      with img True c show ?thesis by (simp add: handleExpandSubmit_def Let_def)
    next
      case (Some sz)
      have "backendCalls (handleExpandSubmit env s) =
              backendCalls s @ [ExpandImage (prompt s)
                (expansionCanvas img (expandSteps s) (expansionStepSize s)) (fileType (imageFile img))]"
        using img True Some by (rule handleExpandSubmit_calls)
      with c have "ExpandImage (prompt s)
                (expansionCanvas img (expandSteps s) (expansionStepSize s)) (fileType (imageFile img)) = req"
        by simp
      with r img True Some show ?thesis
        by (simp add: handleExpandSubmit_def catchExpand_def Let_def)
    qed
  qed
qed

lemma ready_fields:
  "appState magicFillReady = EDITING" "tool magicFillReady = Some MagicFill"
  "originalImage magicFillReady = Some photo" "prompt magicFillReady = ''remove the object''"
  "finalSelection magicFillReady = Some ''iVBORw0KGgo=''" "backendCalls magicFillReady = []"
  "systemContext magicFillReady = []"
  "appState insertReady = EDITING" "tool insertReady = Some Insert"
  "originalImage insertReady = Some photo" "insertImage insertReady = Some sticker"
  "insertImageTransform insertReady = defaultTransform\<lparr>scale := 100\<rparr>"
  "backendCalls insertReady = []" "isPlacingImage insertReady"
  by (simp_all add: magicFillReady_def insertReady_def nextStepClick_def handleToolSelect_def
      uploaded_def initialApp_def)

text \<open>
  C7. When \<open>handleExpandSubmit\<close>, started on the expansion screen, has made its call to the
  backend and the call is rejected with message \<open>m\<close>, the session is on the expansion screen
  again, everything the user entered is as before, and the error slot holds the message. The
  same holds for \<open>handleEditSubmit\<close>, started on the editing screen for Magic Fill or Insert,
  which ends on the editing screen; the \<open>Insert & Blend\<close> button, which closes the placement
  panel before it submits, ends there too with the same data.
\<close>

theorem C7_failure_reverts:
  "(appState s = EXPANDING \<and>
    backendCalls (handleExpandSubmit env s) = backendCalls s @ [req] \<and>
    backend env req = Rejected m \<longrightarrow>
      appState (handleExpandSubmit env s) = EXPANDING \<and>
      userData (handleExpandSubmit env s) = userData s \<and>
      isPlacingImage (handleExpandSubmit env s) = isPlacingImage s \<and>
      error (handleExpandSubmit env s) = Some (messageOr m)) \<and>
   (appState s = EDITING \<and>
    backendCalls (handleEditSubmit env s) = backendCalls s @ [req] \<and>
    backend env req = Rejected m \<longrightarrow>
      appState (handleEditSubmit env s) = EDITING \<and>
      userData (handleEditSubmit env s) = userData s \<and>
      isPlacingImage (handleEditSubmit env s) = isPlacingImage s \<and>
      error (handleEditSubmit env s) = Some (messageOr m) \<and>
      appState (insertAndBlendClick env s) = EDITING \<and>
      userData (insertAndBlendClick env s) = userData s)"
proof (intro conjI impI)
  assume a: "appState s = EXPANDING \<and>
    backendCalls (handleExpandSubmit env s) = backendCalls s @ [req] \<and>
    backend env req = Rejected m"
  then have e: "handleExpandSubmit env s =
     s\<lparr>error := Some (messageOr m), appState := EXPANDING,
       loadingMessage := ''Expanding your canvas...'',
       backendCalls := backendCalls s @ [req]\<rparr>"
    using handleExpandSubmit_rejected [of env s req m] by blast
  show "appState (handleExpandSubmit env s) = EXPANDING"
    and "userData (handleExpandSubmit env s) = userData s"
    and "isPlacingImage (handleExpandSubmit env s) = isPlacingImage s"
    and "error (handleExpandSubmit env s) = Some (messageOr m)"
    by (simp_all add: e userData_def)
next
  assume a: "appState s = EDITING \<and>
    backendCalls (handleEditSubmit env s) = backendCalls s @ [req] \<and>
    backend env req = Rejected m"
  then obtain lm where e: "handleEditSubmit env s =
     s\<lparr>error := Some (messageOr m), appState := EDITING, loadingMessage := lm,
       backendCalls := backendCalls s @ [req]\<rparr>"
    using handleEditSubmit_rejected [of env s req m] by blast
  show "appState (handleEditSubmit env s) = EDITING"
    and "userData (handleEditSubmit env s) = userData s"
    and "isPlacingImage (handleEditSubmit env s) = isPlacingImage s"
    and "error (handleEditSubmit env s) = Some (messageOr m)"
    and "appState (insertAndBlendClick env s) = EDITING"
    and "userData (insertAndBlendClick env s) = userData s"
    by (simp_all add: e userData_def insertAndBlendClick_def)
qed

lemma failing_calls:
  "backendCalls (handleExpandSubmit failingEnv expanded) =
     backendCalls expanded @ [ExpandImage ''a beach at sunset''
       (expansionCanvas photo (expandSteps expanded) 150) ''image/png'']"
  "backendCalls (handleEditSubmit failingEnv magicFillReady) =
     backendCalls magicFillReady @ [EditImageWithText ''remove the object'' photo ''iVBORw0KGgo='' []]"
  "backendCalls (handleEditSubmit failingEnv insertReady) =
     backendCalls insertReady @ [BlendImages photo
       (compositeCanvas photo (800, 600) sticker (defaultTransform\<lparr>scale := 100\<rparr>) 50 50)
       (maskCanvas photo (defaultTransform\<lparr>scale := 100\<rparr>) 50 50) sticker]"
    apply (simp add: handleExpandSubmit_calls [of _ photo _ "(800, 600)"] expanded_fields failingEnv_def okEnv_def photo_def)
   apply (simp add: handleEditSubmit_def ready_fields failingEnv_def okEnv_def noSelection_def
      submitRequest_calls)
  apply (simp add: handleEditSubmit_def ready_fields failingEnv_def okEnv_def noSelection_def
      submitRequest_calls photo_def sticker_def)
  done

theorem C7_failure_reverts_witness:
  "appState expanded = EXPANDING \<and>
   appState (handleExpandSubmit failingEnv expanded) = EXPANDING \<and>
   userData (handleExpandSubmit failingEnv expanded) = userData expanded \<and>
   error (handleExpandSubmit failingEnv expanded) = Some ''Failed to edit image: 503'' \<and>
   appState magicFillReady = EDITING \<and>
   appState (handleEditSubmit failingEnv magicFillReady) = EDITING \<and>
   userData (handleEditSubmit failingEnv magicFillReady) = userData magicFillReady \<and>
   error (handleEditSubmit failingEnv magicFillReady) = Some ''Failed to edit image: 503'' \<and>
   appState insertReady = EDITING \<and>
   appState (insertAndBlendClick failingEnv insertReady) = EDITING \<and>
   userData (insertAndBlendClick failingEnv insertReady) = userData insertReady"
proof -
  have b: "\<And>req. backend failingEnv req = Rejected ''Failed to edit image: 503''"
    by (simp add: failingEnv_def)
  have m: "messageOr ''Failed to edit image: 503'' = ''Failed to edit image: 503''"
    by (simp add: messageOr_def)
  from failing_calls b m
    C7_failure_reverts [of expanded failingEnv
      "ExpandImage ''a beach at sunset'' (expansionCanvas photo (expandSteps expanded) 150) ''image/png''"
      "''Failed to edit image: 503''"]
    C7_failure_reverts [of magicFillReady failingEnv
      "EditImageWithText ''remove the object'' photo ''iVBORw0KGgo='' []"
      "''Failed to edit image: 503''"]
    C7_failure_reverts [of insertReady failingEnv
      "BlendImages photo
       (compositeCanvas photo (800, 600) sticker (defaultTransform\<lparr>scale := 100\<rparr>) 50 50)
       (maskCanvas photo (defaultTransform\<lparr>scale := 100\<rparr>) 50 50) sticker"
      "''Failed to edit image: 503''"]
  show ?thesis
    by (simp add: expanded_fields ready_fields)
qed

section \<open>Properties of cropping and Restore Original\<close>

lemma cropOnce_uncropped:
  "originalImage s \<noteq> None \<Longrightarrow>
   uncroppedOriginalImage (cropOnce env u s) =
     (case uncroppedOriginalImage s of None \<Rightarrow> originalImage s | Some first \<Rightarrow> Some first)"
  by (auto simp: cropOnce_def handleSaveCrop_def handleStartCropping_def Let_def
      split: outcome.splits option.splits)

lemma cropOnce_original:
  "originalImage s \<noteq> None \<Longrightarrow> originalImage (cropOnce env u s) \<noteq> None"
  by (auto simp: cropOnce_def handleSaveCrop_def handleStartCropping_def Let_def
      split: outcome.splits option.splits)

lemma crops_snapshot:
  "originalImage s \<noteq> None \<Longrightarrow>
   uncroppedOriginalImage (handleStartCropping (crops env us s)) =
     (case uncroppedOriginalImage s of None \<Rightarrow> originalImage s | Some first \<Rightarrow> Some first)
   \<and> originalImage (crops env us s) \<noteq> None"
proof (induction us arbitrary: s)
  case Nil
  then show ?case by (auto simp: handleStartCropping_def Let_def split: option.splits)
next
  case (Cons u us)
  from Cons.IH [of "cropOnce env u s"] Cons.prems cropOnce_original [of s env u]
    cropOnce_uncropped [of s env u]
  show ?case by (auto split: option.splits)
qed

lemma restore_after_crops:
  assumes "originalImage s = Some img" "uncroppedOriginalImage s = None"
  shows "originalImage (handleRestoreOriginal (handleStartCropping (crops env us s))) = Some img"
    and "uncroppedOriginalImage (handleRestoreOriginal (handleStartCropping (crops env us s))) = None"
    and "finalSelection (handleRestoreOriginal (handleStartCropping (crops env us s))) = None"
    and "\<not> isSelectionDone (handleRestoreOriginal (handleStartCropping (crops env us s)))"
    and "\<not> isCropping (handleRestoreOriginal (handleStartCropping (crops env us s)))"
  using crops_snapshot [of s env us] assms
  by (simp_all add: handleRestoreOriginal_def Let_def)

lemma start_keeps_snapshot:
  "uncroppedOriginalImage s = Some first \<Longrightarrow>
   uncroppedOriginalImage (handleStartCropping s) = Some first"
  by (simp add: handleStartCropping_def Let_def)

lemma start_records:
  "uncroppedOriginalImage s = None \<Longrightarrow>
   uncroppedOriginalImage (handleStartCropping s) = originalImage s"
  by (cases "originalImage s") (simp_all add: handleStartCropping_def Let_def)

lemma restore_twice:
  "originalImage (handleRestoreOriginal (handleRestoreOriginal s)) = originalImage (handleRestoreOriginal s)"
  by (simp add: handleRestoreOriginal_def Let_def split: option.splits)


text \<open>
  C9. \<open>handleStartCropping\<close> records the working image as the snapshot when there is none and
  keeps the snapshot when there is one. So when a session with working image \<open>img\<close> and no
  snapshot goes through any number of crops, each entered through \<open>handleStartCropping\<close>, and
  the cropper is then opened and \<open>Restore Original\<close> pressed, the working image is \<open>img\<close>
  again, the image before the first crop. The restore leaves no snapshot, no final selection
  and no finished selection, and a second restore changes no image.
\<close>

theorem C9_restore_first_crop:
  "(uncroppedOriginalImage s = None \<longrightarrow>
      uncroppedOriginalImage (handleStartCropping s) = originalImage s) \<and>
   (uncroppedOriginalImage s = Some first \<longrightarrow>
      uncroppedOriginalImage (handleStartCropping s) = Some first) \<and>
   (originalImage s = Some img \<and> uncroppedOriginalImage s = None \<longrightarrow>
      originalImage (handleRestoreOriginal (handleStartCropping (crops env us s))) = Some img \<and>
      uncroppedOriginalImage (handleRestoreOriginal (handleStartCropping (crops env us s))) = None \<and>
      finalSelection (handleRestoreOriginal (handleStartCropping (crops env us s))) = None \<and>
      \<not> isSelectionDone (handleRestoreOriginal (handleStartCropping (crops env us s))) \<and>
      originalImage (handleRestoreOriginal
        (handleRestoreOriginal (handleStartCropping (crops env us s)))) = Some img)"
proof (intro conjI impI)
  assume "uncroppedOriginalImage s = None"
  then show "uncroppedOriginalImage (handleStartCropping s) = originalImage s"
    by (rule start_records)
next
  assume "uncroppedOriginalImage s = Some first"
  then show "uncroppedOriginalImage (handleStartCropping s) = Some first"
    by (rule start_keeps_snapshot)
next
  assume a: "originalImage s = Some img \<and> uncroppedOriginalImage s = None"
  then have o: "originalImage s = Some img" and u: "uncroppedOriginalImage s = None"
    by simp_all
  let ?r = "handleRestoreOriginal (handleStartCropping (crops env us s))"
  show r: "originalImage ?r = Some img" using o u by (rule restore_after_crops)
  show "uncroppedOriginalImage ?r = None" using o u by (rule restore_after_crops)
  show "finalSelection ?r = None" using o u by (rule restore_after_crops)
  show "\<not> isSelectionDone ?r" using o u by (rule restore_after_crops)
  show "originalImage (handleRestoreOriginal ?r) = Some img"
    using r by (simp only: restore_twice)
qed

lemma cropped_once:
  "originalImage (cropOnce okEnv croppedUrl s) =
     Some \<lparr>url = croppedUrl,
           imageFile = \<lparr>fileName = ''cropped_'' @
               (case originalImage s of Some img \<Rightarrow> fileName (imageFile img) | None \<Rightarrow> ''undefined''),
             fileType = ''image/png''\<rparr>,
           width = 400, height = 300\<rparr>"
  by (simp add: cropOnce_def handleSaveCrop_def handleStartCropping_def okEnv_def Let_def
      croppedUrl_def photo_def sticker_def)

theorem C9_restore_first_crop_witness:
  "originalImage magicFillReady = Some photo \<and> uncroppedOriginalImage magicFillReady = None \<and>
   uncroppedOriginalImage (handleStartCropping magicFillReady) = Some photo \<and>
   originalImage (cropOnce okEnv croppedUrl magicFillReady) =
     Some \<lparr>url = croppedUrl, imageFile = \<lparr>fileName = ''cropped_photo.png'', fileType = ''image/png''\<rparr>,
           width = 400, height = 300\<rparr> \<and>
   uncroppedOriginalImage (handleStartCropping (cropOnce okEnv croppedUrl magicFillReady)) = Some photo \<and>
   originalImage (handleRestoreOriginal (handleStartCropping
     (crops okEnv [croppedUrl, croppedUrl] magicFillReady))) = Some photo \<and>
   uncroppedOriginalImage (handleRestoreOriginal (handleStartCropping
     (crops okEnv [croppedUrl, croppedUrl] magicFillReady))) = None \<and>
   finalSelection (handleRestoreOriginal (handleStartCropping
     (crops okEnv [croppedUrl, croppedUrl] magicFillReady))) = None"
proof -
  have u: "uncroppedOriginalImage magicFillReady = None"
    by (simp add: magicFillReady_def nextStepClick_def handleToolSelect_def uploaded_def initialApp_def)
  have o: "originalImage magicFillReady = Some photo" by (rule ready_fields)
  have u1: "uncroppedOriginalImage (cropOnce okEnv croppedUrl magicFillReady) = Some photo"
    using cropOnce_uncropped [of magicFillReady okEnv croppedUrl] u o by simp
  from u o u1 cropped_once [of magicFillReady]
    C9_restore_first_crop [of magicFillReady photo photo okEnv "[croppedUrl, croppedUrl]"]
    C9_restore_first_crop [of "cropOnce okEnv croppedUrl magicFillReady" photo photo okEnv "[]"]
  show ?thesis by (simp add: photo_def)
qed

section \<open>Properties of the binary mask\<close>

lemma length_put4 [simp]: "length (put4 md i r g b a) = length md"
  by (simp add: put4_def)

lemma pixel_put4:
  "4 * k + 3 < length md \<Longrightarrow>
   pixel (put4 md (4 * k) r g b a) j = (if j = k then [r, g, b, a] else pixel md j)"
  by (auto simp: pixel_def put4_def nth_list_update)

lemma alphaSet_alphaOf:
  "4 * k + 3 < length data \<Longrightarrow> alphaSet data (4 * k) = (alphaOf data k > 0)"
  by (simp add: alphaSet_def alphaOf_def)

lemma maskLoop_inv:
  assumes "length data = 4 * n" "length md = 4 * n" "k \<le> n"
  shows "length (fst (maskLoop data (4 * k) md hm)) = 4 * n \<and>
         (\<forall>j < n. pixel (fst (maskLoop data (4 * k) md hm)) j =
                    (if j < k then pixel md j else binaryPixel data j)) \<and>
         snd (maskLoop data (4 * k) md hm) = (hm \<or> (\<exists>j. k \<le> j \<and> j < n \<and> alphaOf data j > 0))"
  using assms
proof (induction "n - k" arbitrary: k md hm)
  case 0
  then have "k = n" by simp
  with 0 show ?case by auto
next
  case (Suc d)
  then have kn: "k < n" by simp
  then have in_range: "4 * k + 3 < length data" "4 * k + 3 < length md" "4 * k < length data"
    using Suc.prems by simp_all
  have step: "4 * k + 4 = 4 * Suc k" by simp
  have d: "d = n - Suc k" using Suc.hyps(2) by simp
  have le: "Suc k \<le> n" using kn by simp
  have ex: "\<And>P. (\<exists>j. k \<le> j \<and> j < n \<and> P j) = (P k \<or> (\<exists>j. Suc k \<le> j \<and> j < n \<and> P j))"
    using kn by (metis Suc_leI le_eq_less_or_eq not_less_eq_eq order_refl less_imp_le_nat Suc_le_lessD)
  show ?case
  proof (cases "alphaOf data k > 0")
    case True
    let ?md = "put4 md (4 * k) 255 255 255 255"
    have unf: "maskLoop data (4 * k) md hm = maskLoop data (4 * Suc k) ?md True"
      using in_range True by (subst maskLoop.simps) (simp add: alphaSet_alphaOf step del: maskLoop.simps)
    from Suc.hyps(1) [OF d Suc.prems(1) _ le, of ?md True] Suc.prems(2)
    have ih: "length (fst (maskLoop data (4 * Suc k) ?md True)) = 4 * n \<and>
         (\<forall>j < n. pixel (fst (maskLoop data (4 * Suc k) ?md True)) j =
                    (if j < Suc k then pixel ?md j else binaryPixel data j)) \<and>
         snd (maskLoop data (4 * Suc k) ?md True) = (True \<or> (\<exists>j. Suc k \<le> j \<and> j < n \<and> alphaOf data j > 0))"
      by simp
    show ?thesis
      unfolding unf using ih True in_range
      by (auto simp: pixel_put4 binaryPixel_def ex [of "\<lambda>j. alphaOf data j > 0"] less_Suc_eq simp del: maskLoop.simps)
  next
    case False
    let ?md = "put4 md (4 * k) 0 0 0 255"
    have unf: "maskLoop data (4 * k) md hm = maskLoop data (4 * Suc k) ?md hm"
      using in_range False by (subst maskLoop.simps) (simp add: alphaSet_alphaOf step del: maskLoop.simps)
    from Suc.hyps(1) [OF d Suc.prems(1) _ le, of ?md hm] Suc.prems(2)
    have ih: "length (fst (maskLoop data (4 * Suc k) ?md hm)) = 4 * n \<and>
         (\<forall>j < n. pixel (fst (maskLoop data (4 * Suc k) ?md hm)) j =
                    (if j < Suc k then pixel ?md j else binaryPixel data j)) \<and>
         snd (maskLoop data (4 * Suc k) ?md hm) = (hm \<or> (\<exists>j. Suc k \<le> j \<and> j < n \<and> alphaOf data j > 0))"
      by simp
    show ?thesis
      unfolding unf using ih False in_range
      by (auto simp: pixel_put4 binaryPixel_def ex [of "\<lambda>j. alphaOf data j > 0"] less_Suc_eq simp del: maskLoop.simps)
  qed
qed


lemma anyAlpha_iff: "anyAlpha data = (\<exists>k < length data div 4. alphaOf data k > 0)"
  by (auto simp: anyAlpha_def list_ex_iff)

lemma maskLoop_result:
  assumes "length data = 4 * n"
  shows "length (maskDataOf data) = 4 * n"
    and "\<forall>k < n. pixel (maskDataOf data) k = binaryPixel data k"
    and "hasMaskOf data = anyAlpha data"
  using maskLoop_inv [of data n "replicate (length data) 0" 0 False] assms
  by (simp_all add: maskDataOf_def hasMaskOf_def anyAlpha_iff del: maskLoop.simps)

lemma getMaskAsBase64_eq:
  "getMaskAsBase64 toBase64 maskCanvasCtx ed =
     (case drawingCanvas ed of
        None \<Rightarrow> Inr []
      | Some canvas \<Rightarrow>
          if \<not> hasContext canvas then Inr []
          else if strokeWidth canvas = 0 \<or> strokeHeight canvas = 0 then Inl IndexSizeError
          else if \<not> hasMaskOf (pixels canvas) then Inr []
          else if \<not> maskCanvasCtx then Inr []
          else Inr (toBase64 (strokeWidth canvas) (strokeHeight canvas) (maskDataOf (pixels canvas))))"
  by (simp add: getMaskAsBase64_def maskDataOf_def hasMaskOf_def Let_def split_beta
      del: maskLoop.simps split: option.splits)

lemma nextStep_empty:
  "getMaskAsBase64 toBase64 maskCanvasCtx ed = Inr [] \<Longrightarrow>
   nextStep toBase64 maskCanvasCtx (Some ed) s =
     s\<lparr>error := Some ''Please select an area before proceeding.''\<rparr>"
  by (simp add: nextStep_def nextStepClick_def)

lemma handleEditSubmit_no_selection:
  "noSelection (finalSelection s) \<Longrightarrow> tool s \<noteq> Some Insert \<Longrightarrow>
   backendCalls (handleEditSubmit env s) = backendCalls s"
  by (cases "originalImage s"; cases "tool s") (auto simp: handleEditSubmit_def)

text \<open>
  C4. For a mounted stroke canvas with a context, a bitmap of four bytes per pixel and a
  positive size: the bytes \<open>getMaskAsBase64\<close> puts on the mask canvas are as many as those of
  the bitmap, and each pixel of them is opaque white where the alpha byte of the stroke bitmap
  is above 0 and opaque black elsewhere. When some alpha byte is above 0 (and the mask canvas
  gets its context) the result is the encoding of these bytes at the size of the stroke
  canvas. When none is, the result is the empty string; \<open>Next Step\<close> then only sets the
  select-an-area message, so the panels with a submit button stay hidden, and
  \<open>handleEditSubmit\<close> for Magic Fill without a selection calls no backend.
\<close>

theorem C4_binary_mask:
  assumes cv: "drawingCanvas ed = Some cv" and ctx: "hasContext cv" and wf: "wellFormed cv"
    and pos: "0 < strokeWidth cv" "0 < strokeHeight cv"
  shows "(anyAlpha (pixels cv) \<and> maskCanvasCtx \<longrightarrow>
            getMaskAsBase64 toBase64 maskCanvasCtx ed =
              Inr (toBase64 (strokeWidth cv) (strokeHeight cv) (maskDataOf (pixels cv)))) \<and>
         length (maskDataOf (pixels cv)) = 4 * (strokeWidth cv * strokeHeight cv) \<and>
         (\<forall>k < strokeWidth cv * strokeHeight cv.
            pixel (maskDataOf (pixels cv)) k =
              (if alphaOf (pixels cv) k > 0 then [255, 255, 255, 255] else [0, 0, 0, 255])) \<and>
         (\<not> anyAlpha (pixels cv) \<longrightarrow>
            getMaskAsBase64 toBase64 maskCanvasCtx ed = Inr [] \<and>
            nextStep toBase64 maskCanvasCtx (Some ed) s =
              s\<lparr>error := Some ''Please select an area before proceeding.''\<rparr> \<and>
            (\<not> isSelectionDone s \<longrightarrow>
               \<not> editSubmitShown (nextStep toBase64 maskCanvasCtx (Some ed) s)) \<and>
            (noSelection (finalSelection s) \<and> tool s \<noteq> Some Insert \<longrightarrow>
               backendCalls (handleEditSubmit env (nextStep toBase64 maskCanvasCtx (Some ed) s))
                 = backendCalls s))"
proof -
  have len: "length (pixels cv) = 4 * (strokeWidth cv * strokeHeight cv)"
    using wf by (simp add: wellFormed_def)
  note res = maskLoop_result [OF len]
  have g: "\<And>c. getMaskAsBase64 toBase64 c ed =
      (if \<not> anyAlpha (pixels cv) then Inr []
       else if \<not> c then Inr []
       else Inr (toBase64 (strokeWidth cv) (strokeHeight cv) (maskDataOf (pixels cv))))"
    using cv ctx pos by (simp add: getMaskAsBase64_eq res(3))
  have a: "anyAlpha (pixels cv) \<and> maskCanvasCtx \<longrightarrow>
            getMaskAsBase64 toBase64 maskCanvasCtx ed =
              Inr (toBase64 (strokeWidth cv) (strokeHeight cv) (maskDataOf (pixels cv)))"
    by (auto simp: g)
  have b: "\<forall>k < strokeWidth cv * strokeHeight cv.
            pixel (maskDataOf (pixels cv)) k =
              (if alphaOf (pixels cv) k > 0 then [255, 255, 255, 255] else [0, 0, 0, 255])"
    using res(2) by (simp add: binaryPixel_def)
  have c: "\<not> anyAlpha (pixels cv) \<longrightarrow>
            getMaskAsBase64 toBase64 maskCanvasCtx ed = Inr [] \<and>
            nextStep toBase64 maskCanvasCtx (Some ed) s =
              s\<lparr>error := Some ''Please select an area before proceeding.''\<rparr> \<and>
            (\<not> isSelectionDone s \<longrightarrow>
               \<not> editSubmitShown (nextStep toBase64 maskCanvasCtx (Some ed) s)) \<and>
            (noSelection (finalSelection s) \<and> tool s \<noteq> Some Insert \<longrightarrow>
               backendCalls (handleEditSubmit env (nextStep toBase64 maskCanvasCtx (Some ed) s))
                 = backendCalls s)"
  proof
    assume "\<not> anyAlpha (pixels cv)"
    then have e: "getMaskAsBase64 toBase64 maskCanvasCtx ed = Inr []" by (simp add: g)
    note n = nextStep_empty [OF e, of s]
    show "getMaskAsBase64 toBase64 maskCanvasCtx ed = Inr [] \<and>
            nextStep toBase64 maskCanvasCtx (Some ed) s =
              s\<lparr>error := Some ''Please select an area before proceeding.''\<rparr> \<and>
            (\<not> isSelectionDone s \<longrightarrow>
               \<not> editSubmitShown (nextStep toBase64 maskCanvasCtx (Some ed) s)) \<and>
            (noSelection (finalSelection s) \<and> tool s \<noteq> Some Insert \<longrightarrow>
               backendCalls (handleEditSubmit env (nextStep toBase64 maskCanvasCtx (Some ed) s))
                 = backendCalls s)"
      using e handleEditSubmit_no_selection
        [of "s\<lparr>error := Some ''Please select an area before proceeding.''\<rparr>" env]
      by (simp add: n editSubmitShown_def)
  qed
  from a res(1) b c show ?thesis by blast
qed

lemma dabbed_anyAlpha: "anyAlpha (pixels dabbed)"
  unfolding anyAlpha_iff by (rule exI [of _ 0]) (simp add: dabbed_def alphaOf_def)

lemma sample_canvases:
  "wellFormed dabbed" "wellFormed blank"
  "anyAlpha (pixels dabbed)" "\<not> anyAlpha (pixels blank)"
  "alphaOf (pixels dabbed) 0 > 0" "\<not> alphaOf (pixels dabbed) 1 > 0"
  by (simp_all add: dabbed_anyAlpha)
     (simp_all add: wellFormed_def dabbed_def blank_def anyAlpha_iff alphaOf_def)

text \<open>
  An instance: on the two-pixel canvas \<open>dabbed\<close> the marked pixel comes out white and the
  untouched one black; on \<open>blank\<close> the result is empty and Magic Fill stays blocked.
\<close>

theorem C4_binary_mask_witness:
  "getMaskAsBase64 samplePng True (idle dabbed) = Inr (samplePng 2 1 (maskDataOf (pixels dabbed))) \<and>
   length (maskDataOf (pixels dabbed)) = 8 \<and>
   pixel (maskDataOf (pixels dabbed)) 0 = [255, 255, 255, 255] \<and>
   pixel (maskDataOf (pixels dabbed)) 1 = [0, 0, 0, 255] \<and>
   getMaskAsBase64 samplePng True (idle blank) = Inr [] \<and>
   \<not> editSubmitShown (nextStep samplePng True (Some (idle blank)) (handleToolSelect MagicFill uploaded)) \<and>
   backendCalls (handleEditSubmit okEnv
     (nextStep samplePng True (Some (idle blank)) (handleToolSelect MagicFill uploaded))) = []"
proof -
  have e: "drawingCanvas (idle dabbed) = Some dabbed" "drawingCanvas (idle blank) = Some blank"
    by (simp_all add: idle_def)
  have d: "hasContext dabbed" "0 < strokeWidth dabbed" "0 < strokeHeight dabbed"
    "strokeWidth dabbed = 2" "strokeHeight dabbed = 1"
    by (simp_all add: dabbed_def)
  have b: "hasContext blank" "0 < strokeWidth blank" "0 < strokeHeight blank"
    by (simp_all add: blank_def)
  have s: "\<not> isSelectionDone (handleToolSelect MagicFill uploaded)"
    "noSelection (finalSelection (handleToolSelect MagicFill uploaded))"
    "tool (handleToolSelect MagicFill uploaded) \<noteq> Some Insert"
    "backendCalls (handleToolSelect MagicFill uploaded) = []"
    by (simp_all add: handleToolSelect_def uploaded_def initialApp_def noSelection_def)
  note A = C4_binary_mask [OF e(1) d(1) sample_canvases(1) d(2) d(3), of True samplePng
      "handleToolSelect MagicFill uploaded" okEnv]
  note B = C4_binary_mask [OF e(2) b(1) sample_canvases(2) b(2) b(3), of True samplePng
      "handleToolSelect MagicFill uploaded" okEnv]
  from A have px: "\<forall>k < 2. pixel (maskDataOf (pixels dabbed)) k =
      (if alphaOf (pixels dabbed) k > 0 then [255, 255, 255, 255] else [0, 0, 0, 255])"
    by (simp add: d)
  have p0: "pixel (maskDataOf (pixels dabbed)) 0 = [255, 255, 255, 255]"
    using px [rule_format, of 0] sample_canvases(5) by simp
  have p1: "pixel (maskDataOf (pixels dabbed)) 1 = [0, 0, 0, 255]"
    using px [rule_format, of 1] sample_canvases(6) by simp
  from A sample_canvases(3) d(4,5)
  have A1: "getMaskAsBase64 samplePng True (idle dabbed) = Inr (samplePng 2 1 (maskDataOf (pixels dabbed)))"
    and A2: "length (maskDataOf (pixels dabbed)) = 8"
    by simp_all
  from B sample_canvases(4) s
  have B1: "getMaskAsBase64 samplePng True (idle blank) = Inr []"
    and B2: "\<not> editSubmitShown (nextStep samplePng True (Some (idle blank))
               (handleToolSelect MagicFill uploaded))"
    and "backendCalls (handleEditSubmit okEnv
               (nextStep samplePng True (Some (idle blank)) (handleToolSelect MagicFill uploaded)))
          = backendCalls (handleToolSelect MagicFill uploaded)"
    by blast+
  then have B3: "backendCalls (handleEditSubmit okEnv
               (nextStep samplePng True (Some (idle blank)) (handleToolSelect MagicFill uploaded))) = []"
    by (simp only: s(4))
  from A1 A2 p0 p1 B1 B2 B3 show ?thesis by blast
qed

text \<open>
  C10. \<open>getMaskAsBase64\<close> returns the empty string when the canvas ref is empty, when the
  canvas has no 2D context, and when no pixel of the bitmap has an alpha byte above 0 (also
  when the mask canvas gets no context). Whatever the cause, \<open>Next Step\<close> reacts to the empty
  string in one way: it sets the select-an-area message and nothing else.
\<close>

theorem C10_failures_alike:
  "(drawingCanvas ed = None \<longrightarrow> getMaskAsBase64 toBase64 maskCanvasCtx ed = Inr []) \<and>
   (drawingCanvas ed = Some cv \<and> \<not> hasContext cv \<longrightarrow>
      getMaskAsBase64 toBase64 maskCanvasCtx ed = Inr []) \<and>
   (drawingCanvas ed = Some cv \<and> hasContext cv \<and> wellFormed cv \<and>
    0 < strokeWidth cv \<and> 0 < strokeHeight cv \<and> \<not> anyAlpha (pixels cv) \<longrightarrow>
      getMaskAsBase64 toBase64 maskCanvasCtx ed = Inr []) \<and>
   (drawingCanvas ed = Some cv \<and> hasContext cv \<and> wellFormed cv \<and>
    0 < strokeWidth cv \<and> 0 < strokeHeight cv \<and> \<not> maskCanvasCtx \<longrightarrow>
      getMaskAsBase64 toBase64 maskCanvasCtx ed = Inr []) \<and>
   (getMaskAsBase64 toBase64 maskCanvasCtx ed = Inr [] \<longrightarrow>
      nextStep toBase64 maskCanvasCtx (Some ed) s =
        s\<lparr>error := Some ''Please select an area before proceeding.''\<rparr>)"
proof (intro conjI impI)
  assume "drawingCanvas ed = None"
  then show "getMaskAsBase64 toBase64 maskCanvasCtx ed = Inr []"
    by (simp add: getMaskAsBase64_eq)
next
  assume "drawingCanvas ed = Some cv \<and> \<not> hasContext cv"
  then show "getMaskAsBase64 toBase64 maskCanvasCtx ed = Inr []"
    by (simp add: getMaskAsBase64_eq)
next
  assume a: "drawingCanvas ed = Some cv \<and> hasContext cv \<and> wellFormed cv \<and>
    0 < strokeWidth cv \<and> 0 < strokeHeight cv \<and> \<not> anyAlpha (pixels cv)"
  then have "length (pixels cv) = 4 * (strokeWidth cv * strokeHeight cv)"
    by (simp add: wellFormed_def)
  from maskLoop_result(3) [OF this] a
  show "getMaskAsBase64 toBase64 maskCanvasCtx ed = Inr []"
    by (simp add: getMaskAsBase64_eq)
next
  assume a: "drawingCanvas ed = Some cv \<and> hasContext cv \<and> wellFormed cv \<and>
    0 < strokeWidth cv \<and> 0 < strokeHeight cv \<and> \<not> maskCanvasCtx"
  then show "getMaskAsBase64 toBase64 maskCanvasCtx ed = Inr []"
    by (simp add: getMaskAsBase64_eq)
next
  assume "getMaskAsBase64 toBase64 maskCanvasCtx ed = Inr []"
  then show "nextStep toBase64 maskCanvasCtx (Some ed) s =
        s\<lparr>error := Some ''Please select an area before proceeding.''\<rparr>"
    by (rule nextStep_empty)
qed

text \<open>
  An instance: an unmounted editor, an editor without context and an editor with a blank
  canvas give the same empty string and the same state after \<open>Next Step\<close>.
\<close>

theorem C10_failures_alike_witness:
  "getMaskAsBase64 samplePng True unmounted = Inr [] \<and>
   getMaskAsBase64 samplePng True contextless = Inr [] \<and>
   getMaskAsBase64 samplePng True (idle blank) = Inr [] \<and>
   getMaskAsBase64 samplePng False (idle dabbed) = Inr [] \<and>
   nextStep samplePng True (Some unmounted) magicFillReady =
     magicFillReady\<lparr>error := Some ''Please select an area before proceeding.''\<rparr> \<and>
   nextStep samplePng True (Some contextless) magicFillReady =
     magicFillReady\<lparr>error := Some ''Please select an area before proceeding.''\<rparr> \<and>
   nextStep samplePng True (Some (idle blank)) magicFillReady =
     magicFillReady\<lparr>error := Some ''Please select an area before proceeding.''\<rparr>"
proof -
  have u: "drawingCanvas unmounted = None" by (simp add: unmounted_def)
  have c: "drawingCanvas contextless = Some (dabbed\<lparr>hasContext := False\<rparr>)"
    "\<not> hasContext (dabbed\<lparr>hasContext := False\<rparr>)"
    by (simp_all add: contextless_def idle_def)
  have b: "drawingCanvas (idle blank) = Some blank" "hasContext blank"
    "0 < strokeWidth blank" "0 < strokeHeight blank"
    by (simp_all add: idle_def blank_def)
  have d: "drawingCanvas (idle dabbed) = Some dabbed" "hasContext dabbed"
    "0 < strokeWidth dabbed" "0 < strokeHeight dabbed"
    by (simp_all add: idle_def dabbed_def)
  from u c b d sample_canvases
    C10_failures_alike [of unmounted samplePng True blank magicFillReady]
    C10_failures_alike [of contextless samplePng True "dabbed\<lparr>hasContext := False\<rparr>" magicFillReady]
    C10_failures_alike [of "idle blank" samplePng True blank magicFillReady]
    C10_failures_alike [of "idle dabbed" samplePng False dabbed magicFillReady]
  show ?thesis by simp
qed

section \<open>Properties of the brush gestures\<close>

lemma startDrawing_idle:
  "\<not> isDrawing ed \<Longrightarrow> drawingCanvas (startDrawing raster brushSize rect e ed) = drawingCanvas ed"
  by (simp add: startDrawing_def draw_def split: option.splits)

lemma stopDrawing_canvas: "drawingCanvas (stopDrawing ed) = drawingCanvas ed"
  by (simp add: stopDrawing_def)

lemma tap_idle:
  "\<not> isDrawing ed \<Longrightarrow> drawingCanvas (tap raster brushSize rect e ed) = drawingCanvas ed"
  by (simp add: tap_def stopDrawing_canvas startDrawing_idle)

text \<open>With \<open>isDrawing\<close> true, as on a move after the next render, \<open>draw\<close> does stroke the segment.\<close>

lemma draw_paints:
  assumes "isDrawing ed" "drawingCanvas ed = Some cv" "hasContext cv"
    "getCoords (Some cv) rect e = Some coords" "lastPoint ed = Some lp"
  shows "drawingCanvas (draw raster brushSize rect e ed) =
     Some (cv\<lparr>pixels := raster \<lparr>strokeFrom = lp, strokeTo = coords,
                 lineWidth = brushSize * (real (strokeWidth cv) / rectWidth rect)\<rparr>
               (strokeWidth cv) (strokeHeight cv) (pixels cv)\<rparr>)"
  using assms by (simp add: draw_def Let_def)

text \<open>
  C2. A tap is claimed to leave a dot that the export reports as white. In an idle editor
  (\<open>isDrawing\<close> false) with a blank canvas, a mouse-down at the point (1, 1/2) of the canvas
  followed by a mouse-up leaves the canvas blank, whatever the rasteriser, and the export
  is the empty string: the \<open>draw\<close> that \<open>startDrawing\<close> calls still sees \<open>isDrawing\<close> false and
  returns at its first line.
\<close>

theorem C2_tap_paints_nothing:
  "getCoords (Some blank) bitmapRect (MouseEvent 1 (1/2)) = Some (1, 1/2) \<and>
   drawingCanvas (tap raster 30 bitmapRect (MouseEvent 1 (1/2)) (idle blank)) = Some blank \<and>
   getMaskAsBase64 samplePng True (tap raster 30 bitmapRect (MouseEvent 1 (1/2)) (idle blank)) = Inr []"
proof -
  have i: "\<not> isDrawing (idle blank)" "drawingCanvas (idle blank) = Some blank"
    by (simp_all add: idle_def)
  have c: "getCoords (Some blank) bitmapRect (MouseEvent 1 (1/2)) = Some (1, 1/2)"
    by (simp add: getCoords_def blank_def bitmapRect_def)
  have t: "drawingCanvas (tap raster 30 bitmapRect (MouseEvent 1 (1/2)) (idle blank)) = Some blank"
    using i by (simp add: tap_idle)
  have "length (pixels blank) = 4 * 2" by (simp add: blank_def)
  from maskLoop_result(3) [OF this] sample_canvases(4) t
  have "getMaskAsBase64 samplePng True (tap raster 30 bitmapRect (MouseEvent 1 (1/2)) (idle blank)) = Inr []"
    by (simp add: getMaskAsBase64_eq blank_def)
  with c t show ?thesis by simp
qed

section \<open>Properties of the placement transform, the composite and the mask\<close>

lemma unapply_apply:
  "det2D m \<noteq> 0 \<Longrightarrow> unapply2D m (apply2D m q) = q"
proof (cases m; cases q)
  fix a b c d e f qx qy
  assume m: "m = Matrix2D a b c d e f" and q: "q = (qx, qy)" and "det2D m \<noteq> 0"
  then have dt: "a * d - b * c \<noteq> 0" by simp
  have "(d * (a * qx + c * qy + e - e) - c * (b * qx + d * qy + f - f)) = (a * d - b * c) * qx"
    by (simp add: algebra_simps)
  moreover have "(a * (b * qx + d * qy + f - f) - b * (a * qx + c * qy + e - e)) = (a * d - b * c) * qy"
    by (simp add: algebra_simps)
  ultimately show ?thesis using dt by (simp add: m q)
qed

lemma apply_unapply:
  "det2D m \<noteq> 0 \<Longrightarrow> apply2D m (unapply2D m p) = p"
proof (cases m; cases p)
  fix a b c d e f px py
  assume m: "m = Matrix2D a b c d e f" and p: "p = (px, py)" and "det2D m \<noteq> 0"
  then have dt: "a * d - b * c \<noteq> 0" by simp
  define D where "D = a * d - b * c"
  define n1 where "n1 = d * (px - e) - c * (py - f)"
  define n2 where "n2 = a * (py - f) - b * (px - e)"
  have D0: "D \<noteq> 0" using dt by (simp add: D_def)
  have s1: "a * n1 + c * n2 = D * (px - e)" and s2: "b * n1 + d * n2 = D * (py - f)"
    by (simp_all add: n1_def n2_def D_def algebra_simps)
  have "a * (n1 / D) + c * (n2 / D) = (a * n1 + c * n2) / D"
    by (simp add: add_divide_distrib)
  with s1 D0 have x: "a * (n1 / D) + c * (n2 / D) + e = px" by simp
  have "b * (n1 / D) + d * (n2 / D) = (b * n1 + d * n2) / D"
    by (simp add: add_divide_distrib)
  with s2 D0 have y: "b * (n1 / D) + d * (n2 / D) + f = py" by simp
  have "unapply2D m p = (n1 / D, n2 / D)"
    by (simp add: m p n1_def n2_def D_def)
  then show ?thesis using x y by (simp add: m p)
qed

lemma to2D_build:
  "to2D (buildTransformMatrix t iw ih cv) =
     (let k = scale t / 100;
          cz = cos (rad (rotation t)); sz = sin (rad (rotation t));
          cy = cos (rad (rotateY t)); sy = sin (rad (rotateY t));
          cx = cos (rad (rotateX t)); sx = sin (rad (rotateX t));
          a = k * (cz * cy); b = k * (sz * cy);
          c = k * (cz * sy * sx - sz * cx); d = k * (sz * sy * sx + cz * cx)
      in Matrix2D a b c d
           (posX t / 100 * real (canvasWidth cv) + a * (- real iw / 2) + c * (- real ih / 2))
           (posY t / 100 * real (canvasHeight cv) + b * (- real iw / 2) + d * (- real ih / 2)))"
  by (simp add: buildTransformMatrix_def Let_def translateSelf_def rotateSelf_def scaleSelf_def
      identityMatrix_def rotationX_def rotationY_def rotationZ_def field_simps)

lemma det_algebra:
  fixes k cz sz cy sy cx sx :: real
  assumes "cz * cz + sz * sz = 1"
  shows "k * (cz * cy) * (k * (sz * sy * sx + cz * cx)) - k * (sz * cy) * (k * (cz * sy * sx - sz * cx))
         = k * k * cx * cy"
proof -
  have "k * (cz * cy) * (k * (sz * sy * sx + cz * cx)) - k * (sz * cy) * (k * (cz * sy * sx - sz * cx))
        = k * k * cx * cy * (cz * cz + sz * sz)"
    by (simp add: algebra_simps)
  then show ?thesis by (simp only: assms mult_1_right)
qed

lemma det_build:
  "det2D (to2D (buildTransformMatrix t iw ih cv)) =
     (scale t / 100)\<^sup>2 * cos (rad (rotateX t)) * cos (rad (rotateY t))"
proof -
  have p: "cos (rad (rotation t)) * cos (rad (rotation t))
           + sin (rad (rotation t)) * sin (rad (rotation t)) = 1"
    using sin_cos_squared_add2 [of "rad (rotation t)"] by (simp add: power2_eq_square)
  have "det2D (to2D (buildTransformMatrix t iw ih cv)) =
      scale t / 100 * (cos (rad (rotation t)) * cos (rad (rotateY t))) *
        (scale t / 100 * (sin (rad (rotation t)) * sin (rad (rotateY t)) * sin (rad (rotateX t))
           + cos (rad (rotation t)) * cos (rad (rotateX t))))
      - scale t / 100 * (sin (rad (rotation t)) * cos (rad (rotateY t))) *
        (scale t / 100 * (cos (rad (rotation t)) * sin (rad (rotateY t)) * sin (rad (rotateX t))
           - sin (rad (rotation t)) * cos (rad (rotateX t))))"
    by (simp add: to2D_build Let_def)
  also have "\<dots> = scale t / 100 * (scale t / 100) * cos (rad (rotateX t)) * cos (rad (rotateY t))"
    by (rule det_algebra [OF p])
  finally show ?thesis by (simp add: power2_eq_square)
qed


lemma maskCanvas_fields:
  "canvasWidth (maskCanvas img t iw ih) = width img"
  "canvasHeight (maskCanvas img t iw ih) = height img"
  "ops (maskCanvas img t iw ih) =
     [FillRect ''black'' identity2D 0 0 (real (width img)) (real (height img)),
      FillRect ''white'' (placementMatrix img t iw ih) 0 0 (real iw) (real ih)]"
  by (simp_all add: maskCanvas_def placementMatrix_def Let_def)

lemma compositeCanvas_fields:
  "canvasWidth (compositeCanvas img natural ins t iw ih) = width img"
  "canvasHeight (compositeCanvas img natural ins t iw ih) = height img"
  "ops (compositeCanvas img natural ins t iw ih) =
     [DrawImage (url img) 1 identity2D 0 0 (real (fst natural)) (real (snd natural)),
      insertOp img ins t iw ih]"
  by (simp_all add: compositeCanvas_def placementMatrix_def insertOp_def Let_def)

lemma inCanvas_same:
  "inCanvas (compositeCanvas img natural ins t iw ih) p = inCanvas (maskCanvas img t iw ih) p"
  by (simp add: inCanvas_def maskCanvas_fields compositeCanvas_fields)

lemma mask_white_iff:
  "paintedWith ''white'' (maskCanvas img t iw ih) p =
     (inCanvas (maskCanvas img t iw ih) p \<and> det2D (placementMatrix img t iw ih) \<noteq> 0 \<and>
      inRect 0 0 (real iw) (real ih) (unapply2D (placementMatrix img t iw ih) p))"
  by (simp add: paintedWith_def topOp_def maskCanvas_fields)

lemma object_drawn_iff:
  "objectDrawnAt img natural ins t iw ih p =
     (inCanvas (maskCanvas img t iw ih) p \<and> det2D (placementMatrix img t iw ih) \<noteq> 0 \<and>
      inRect 0 0 (real iw) (real ih) (unapply2D (placementMatrix img t iw ih) p))"
  by (auto simp: objectDrawnAt_def topOp_def compositeCanvas_fields inCanvas_same insertOp_def)

lemma image_iff:
  assumes "det2D m \<noteq> 0"
  shows "inRect rx ry rw rh (unapply2D m p) = (\<exists>q. inRect rx ry rw rh q \<and> apply2D m q = p)"
proof
  assume "inRect rx ry rw rh (unapply2D m p)"
  moreover have "apply2D m (unapply2D m p) = p" using assms by (rule apply_unapply)
  ultimately show "\<exists>q. inRect rx ry rw rh q \<and> apply2D m q = p" by blast
next
  assume "\<exists>q. inRect rx ry rw rh q \<and> apply2D m q = p"
  then obtain q where q: "inRect rx ry rw rh q" "apply2D m q = p" by blast
  have "unapply2D m (apply2D m q) = q" using assms by (rule unapply_apply)
  with q show "inRect rx ry rw rh (unapply2D m p)" by simp
qed


text \<open>The insert branch of \<open>handleEditSubmit\<close> sends these two canvases to \<open>blendImages\<close>.\<close>

lemma handleEditSubmit_blend:
  assumes "originalImage s = Some img" "tool s = Some Insert" "insertImage s = Some ins"
    and "fileToDataUrl env (imageFile img) = Resolved dataUrl"
    and "naturalSize env (url img) = Some natural" "naturalSize env (insertUrl ins) = Some (iw, ih)"
    and "compositeCtx env" "maskCtx env"
  shows "backendCalls (handleEditSubmit env s) =
     backendCalls s @ [BlendImages img
       (compositeCanvas img natural ins (insertImageTransform s) iw ih)
       (maskCanvas img (insertImageTransform s) iw ih) ins]"
  using assms by (simp add: handleEditSubmit_def submitRequest_calls)

lemma det_placement:
  "det2D (placementMatrix img t iw ih) =
     (scale t / 100)\<^sup>2 * cos (rad (rotateX t)) * cos (rad (rotateY t))"
  by (simp add: placementMatrix_def det_build)

text \<open>
  C3, as amended. The composite and the mask have the same size, and the matrix under which
  the inserted image is drawn on the composite is the matrix under which the white rectangle
  is filled on the mask; so a point is white on the mask exactly when the inserted image is
  what was drawn last there on the composite. The determinant of the matrix is
  (scale / 100) squared times the cosines of the two tilts. When it is not 0, the white region
  is the image of the object's native rectangle under the matrix, cut off at the edges of
  the canvas, and the image of a native point is white exactly when the point is in the
  native rectangle and its image is on the canvas. When it is 0, no point is white.
\<close>

theorem C3_mask_matches_composite:
  fixes img :: Image and ins :: InsertImage and t :: ImageTransform and iw ih :: nat
    and natural :: "nat \<times> nat"
  defines "m \<equiv> placementMatrix img t iw ih"
    and "maskCv \<equiv> maskCanvas img t iw ih"
    and "compositeCv \<equiv> compositeCanvas img natural ins t iw ih"
  shows "canvasWidth maskCv = canvasWidth compositeCv \<and> canvasHeight maskCv = canvasHeight compositeCv \<and>
         ops maskCv ! 1 = FillRect ''white'' m 0 0 (real iw) (real ih) \<and>
         ops compositeCv ! 1 = DrawImage (insertUrl ins) (opacity t / 100) m 0 0 (real iw) (real ih) \<and>
         paintedWith ''white'' maskCv p = objectDrawnAt img natural ins t iw ih p \<and>
         det2D m = (scale t / 100)\<^sup>2 * cos (rad (rotateX t)) * cos (rad (rotateY t)) \<and>
         (det2D m \<noteq> 0 \<longrightarrow>
            paintedWith ''white'' maskCv p =
              (inCanvas maskCv p \<and> (\<exists>q. inRect 0 0 (real iw) (real ih) q \<and> apply2D m q = p))) \<and>
         (det2D m \<noteq> 0 \<longrightarrow>
            paintedWith ''white'' maskCv (apply2D m q) =
              (inRect 0 0 (real iw) (real ih) q \<and> inCanvas maskCv (apply2D m q))) \<and>
         (det2D m = 0 \<longrightarrow> \<not> paintedWith ''white'' maskCv p)"
proof (intro conjI impI)
  show "canvasWidth maskCv = canvasWidth compositeCv" "canvasHeight maskCv = canvasHeight compositeCv"
    by (simp_all add: maskCv_def compositeCv_def maskCanvas_fields compositeCanvas_fields)
  show "ops maskCv ! 1 = FillRect ''white'' m 0 0 (real iw) (real ih)"
    by (simp add: maskCv_def m_def maskCanvas_fields)
  show "ops compositeCv ! 1 = DrawImage (insertUrl ins) (opacity t / 100) m 0 0 (real iw) (real ih)"
    by (simp add: compositeCv_def m_def compositeCanvas_fields insertOp_def)
  show "paintedWith ''white'' maskCv p = objectDrawnAt img natural ins t iw ih p"
    by (simp only: maskCv_def mask_white_iff object_drawn_iff)
  show "det2D m = (scale t / 100)\<^sup>2 * cos (rad (rotateX t)) * cos (rad (rotateY t))"
    unfolding m_def by (rule det_placement)
next
  assume d: "det2D m \<noteq> 0"
  show "paintedWith ''white'' maskCv p =
              (inCanvas maskCv p \<and> (\<exists>q. inRect 0 0 (real iw) (real ih) q \<and> apply2D m q = p))"
    using d image_iff [OF d, of 0 0 "real iw" "real ih" p]
    by (simp add: maskCv_def mask_white_iff m_def [symmetric])
next
  assume d: "det2D m \<noteq> 0"
  show "paintedWith ''white'' maskCv (apply2D m q) =
              (inRect 0 0 (real iw) (real ih) q \<and> inCanvas maskCv (apply2D m q))"
    using d unapply_apply [OF d, of q]
    by (auto simp: maskCv_def mask_white_iff m_def [symmetric])
next
  assume "det2D m = 0"
  then show "\<not> paintedWith ''white'' maskCv p"
    by (simp add: maskCv_def mask_white_iff m_def [symmetric])
qed

lemma photo_size: "width photo = 800" "height photo = 600"
  by (simp_all add: photo_def)

lemma sample_matrices:
  "placementMatrix photo centred 50 50 = Matrix2D 1 0 0 1 375 275"
  "placementMatrix photo cornered 50 50 = Matrix2D 1 0 0 1 (-25) (-25)"
  by (simp_all add: placementMatrix_def to2D_build Let_def centred_def cornered_def
      defaultTransform_def photo_def rad_def)

lemma edgeOn_matrix:
  "placementMatrix photo edgeOn 50 50 = Matrix2D 0 0 0 1 400 275"
  by (simp add: placementMatrix_def to2D_build Let_def edgeOn_def defaultTransform_def photo_def rad_def)

text \<open>
  C3, as claimed, has the white region equal to the image of the native rectangle, from which
  the rectangle is recovered, for every position and for tilts up to 90 degrees. With the
  sticker placed at the top left corner of the base image the native corner (0, 0) is drawn at
  (-25, -25), off the canvas, so it is not white on the mask although the matrix is
  invertible. With the sticker at the centre and tilted by 90 degrees the matrix is not
  invertible and the centre (400, 300), the image of the native centre (25, 25), is not white.
\<close>

theorem C3_clipped_counterexample:
  "inRect 0 0 50 50 (0, 0) \<and>
   det2D (placementMatrix photo cornered 50 50) \<noteq> 0 \<and>
   apply2D (placementMatrix photo cornered 50 50) (0, 0) = (-25, -25) \<and>
   \<not> paintedWith ''white'' (maskCanvas photo cornered 50 50)
       (apply2D (placementMatrix photo cornered 50 50) (0, 0)) \<and>
   inRect 0 0 50 50 (25, 25) \<and>
   det2D (placementMatrix photo edgeOn 50 50) = 0 \<and>
   apply2D (placementMatrix photo edgeOn 50 50) (25, 25) = (400, 300) \<and>
   inCanvas (maskCanvas photo edgeOn 50 50) (400, 300) \<and>
   \<not> paintedWith ''white'' (maskCanvas photo edgeOn 50 50) (400, 300)"
  by (simp add: mask_white_iff sample_matrices edgeOn_matrix inRect_def inCanvas_def
      maskCanvas_fields photo_size)

text \<open>
  An instance: with the sticker at the centre of the 800 by 600 base image the white region is
  the square from (375, 275) to (425, 325).
\<close>

theorem C3_mask_matches_composite_witness:
  "det2D (placementMatrix photo centred 50 50) = 1 \<and>
   paintedWith ''white'' (maskCanvas photo centred 50 50) (400, 300) \<and>
   objectDrawnAt photo (800, 600) sticker centred 50 50 (400, 300) \<and>
   apply2D (placementMatrix photo centred 50 50) (0, 0) = (375, 275) \<and>
   paintedWith ''white'' (maskCanvas photo centred 50 50) (375, 275) \<and>
   apply2D (placementMatrix photo centred 50 50) (50, 50) = (425, 325) \<and>
   paintedWith ''white'' (maskCanvas photo centred 50 50) (425, 325) \<and>
   \<not> paintedWith ''white'' (maskCanvas photo centred 50 50) (100, 100) \<and>
   \<not> objectDrawnAt photo (800, 600) sticker centred 50 50 (100, 100)"
proof -
  have d: "det2D (placementMatrix photo centred 50 50) \<noteq> 0"
    by (simp add: sample_matrices)
  have c: "inCanvas (maskCanvas photo centred 50 50) (375, 275)"
    "inCanvas (maskCanvas photo centred 50 50) (425, 325)"
    "inCanvas (maskCanvas photo centred 50 50) (400, 300)"
    "inRect 0 0 50 50 (0, 0)" "inRect 0 0 50 50 (50, 50)" "inRect 0 0 50 50 (25, 25)"
    "apply2D (placementMatrix photo centred 50 50) (0, 0) = (375, 275)"
    "apply2D (placementMatrix photo centred 50 50) (50, 50) = (425, 325)"
    "apply2D (placementMatrix photo centred 50 50) (25, 25) = (400, 300)"
    "apply2D (placementMatrix photo centred 50 50) (-275, -175) = (100, 100)"
    "\<not> inRect 0 0 50 50 (-275, -175)"
    by (simp_all add: inCanvas_def inRect_def maskCanvas_fields photo_size sample_matrices)
  note T = C3_mask_matches_composite [where img = photo and t = centred and iw = 50 and ih = 50
      and ins = sticker and natural = "(800, 600)"]
  from d c T [where p = "(400, 300)" and q = "(25, 25)"] T [where p = "(375, 275)" and q = "(0, 0)"]
    T [where p = "(425, 325)" and q = "(50, 50)"] T [where p = "(100, 100)" and q = "(-275, -175)"]
  show ?thesis by (simp add: sample_matrices) blast
qed

section \<open>Properties of the crop selector\<close>

subsection \<open>Rounding to doubles\<close>

lemma roundHalfEven_of_int [simp]: "roundHalfEven (of_int m) = m"
  by (simp add: roundHalfEven_def)

lemma roundHalfEven_nonneg: "0 \<le> q \<Longrightarrow> 0 \<le> roundHalfEven q"
  by (auto simp: roundHalfEven_def Let_def)

lemma toDouble_nonneg: "0 \<le> x \<Longrightarrow> 0 \<le> toDouble x"
  by (auto simp: toDouble_def intro!: mult_nonneg_nonneg roundHalfEven_nonneg)

lemma ulpExponent_eq:
  assumes "2 powi k \<le> x" "x < 2 powi (k + 1)" "- 1022 \<le> k"
  shows "ulpExponent x = k - 52"
proof -
  have "0 < (2::real) powi k" by simp
  with assms(1) have x0: "0 < x" by linarith
  have "2 powr (real_of_int k) \<le> x \<and> x < 2 powr (real_of_int (k + 1))"
    using assms by (simp add: powr_real_of_int' del: of_int_add)
  then have "2 powr (real_of_int k) \<le> x \<and> x < 2 powr (real_of_int k + 1)" by simp
  then have "\<lfloor>log 2 x\<rfloor> = k" using x0 by (simp add: floor_log_eq_powr_iff)
  then show ?thesis using assms(3) by (simp add: ulpExponent_def)
qed

lemma toDouble_eval:
  assumes "2 powi k \<le> x" "x < 2 powi (k + 1)" "- 1022 \<le> k"
  shows "toDouble x = of_int (roundHalfEven (x / 2 powi (k - 52))) * 2 powi (k - 52)"
proof -
  have "0 < (2::real) powi k" by simp
  with assms(1) have x0: "0 < x" by linarith
  then show ?thesis
    using ulpExponent_eq [OF assms] by (simp add: toDouble_def)
qed

text \<open>A whole number below \<open>2^53\<close> is a double.\<close>

lemma toDouble_of_int:
  assumes "\<bar>n\<bar> < 2 ^ 53"
  shows "toDouble (of_int n) = of_int n"
proof (cases "n = 0")
  case True
  then show ?thesis by (simp add: toDouble_def)
next
  case False
  define x :: real where "x = of_int \<bar>n\<bar>"
  define k where "k = \<lfloor>log 2 x\<rfloor>"
  have x1: "1 \<le> x" using False by (simp add: x_def)
  have xlt: "x < 2 ^ 53" using assms unfolding x_def
    by (metis of_int_less_iff of_int_numeral of_int_power)
  have k0: "0 \<le> k" using x1 by (simp add: k_def)
  have "log 2 x < 53" using x1 xlt by (simp add: log_less_iff)
  then have k52: "k \<le> 52" unfolding k_def by linarith
  have e: "ulpExponent x = k - 52" using k0 by (simp add: ulpExponent_def k_def)
  have p: "(2::real) powi (k - 52) = 1 / 2 ^ nat (52 - k)"
    using k52 by (simp add: power_int_def field_simps)
  have "x / 2 powi (k - 52) = of_int (\<bar>n\<bar> * 2 ^ nat (52 - k))"
    by (simp add: p x_def)
  then have r: "roundHalfEven (x / 2 powi (k - 52)) = \<bar>n\<bar> * 2 ^ nat (52 - k)"
    by (simp only: roundHalfEven_of_int)
  have "toDouble (of_int n) = sgn (real_of_int n) * (of_int (\<bar>n\<bar> * 2 ^ nat (52 - k)) * 2 powi (k - 52))"
    using False e r by (simp add: toDouble_def x_def)
  also have "\<dots> = sgn (real_of_int n) * of_int \<bar>n\<bar>"
    by (simp add: p)
  also have "\<dots> = of_int n"
    by (simp add: sgn_real_def)
  finally show ?thesis .
qed

lemma dsub_ints:
  "\<bar>a - b\<bar> < 2 ^ 53 \<Longrightarrow> dsub (of_int a) (of_int b) = of_int (a - b)"
  using toDouble_of_int [of "a - b"] by (simp add: dsub_def)


text \<open>Quotients and products of the sample values, as doubles.\<close>

lemma ddiv_1100_1000: "ddiv 1100 1000 = 4953959590107546 / 2 ^ 52"
  using toDouble_eval [of 0 "11 / 10"] by (simp add: ddiv_def roundHalfEven_def)

lemma dmul_7_ratio: "dmul 7 (ddiv 1100 1000) = 8669429282688206 / 2 ^ 50"
  using toDouble_eval [of 2 "7 * (4953959590107546 / 2 ^ 52)"]
  by (simp add: dmul_def ddiv_1100_1000 roundHalfEven_def)

lemma ddiv_700_500: "ddiv 700 500 = 6305039478318694 / 2 ^ 52"
  using toDouble_eval [of 0 "7 / 5"] by (simp add: ddiv_def roundHalfEven_def)

lemma dmul_45_ratio: "dmul 45 (ddiv 700 500) = 8866461766385663 / 2 ^ 47"
  using toDouble_eval [of 5 "45 * (6305039478318694 / 2 ^ 52)"]
  by (simp add: dmul_def ddiv_700_500 roundHalfEven_def)

lemma ddiv_10_1000: "ddiv 10 1000 = 5764607523034235 / 2 ^ 59"
  using toDouble_eval [of "- 7" "1 / 100"] by (simp add: ddiv_def roundHalfEven_def)

lemma dmul_5_ratio: "dmul 5 (ddiv 10 1000) = 7205759403792794 / 2 ^ 57"
  using toDouble_eval [of "- 5" "5 * (5764607523034235 / 2 ^ 59)"]
  by (simp add: dmul_def ddiv_10_1000 roundHalfEven_def)

lemma trunc_examples:
  "setCanvasDim 300 (dmul 7 (ddiv 1100 1000)) = 7"
  "setCanvasDim 300 (dmul 45 (ddiv 700 500)) = 62"
  "nat \<lfloor>45 * (700 / 500 :: real)\<rfloor> = 63"
  "setCanvasDim 300 (dmul 5 (ddiv 10 1000)) = 0"
  by (simp_all add: dmul_7_ratio dmul_45_ratio dmul_5_ratio setCanvasDim_def toUnsignedLong_def
      integerPart_def)


lemma toDouble_0 [simp]: "toDouble 0 = 0"
  by (simp add: toDouble_def)

lemma toDouble_numeral:
  "(numeral n :: int) < 2 ^ 53 \<Longrightarrow> toDouble (numeral n) = numeral n"
  using toDouble_of_int [of "numeral n"] by simp

lemma dmul_nonneg: "0 \<le> u \<Longrightarrow> 0 \<le> v \<Longrightarrow> 0 \<le> dmul u v"
  by (simp add: dmul_def toDouble_nonneg)

lemma ddiv_nonneg: "0 \<le> u \<Longrightarrow> 0 \<le> v \<Longrightarrow> 0 \<le> ddiv u v"
  by (simp add: ddiv_def toDouble_nonneg)

subsection \<open>The drag, the canvas and the image\<close>

lemma setCanvasDim_floor:
  assumes "0 \<le> v" "v < 2147483648"
  shows "setCanvasDim dflt v = nat \<lfloor>v\<rfloor>"
proof -
  have f0: "0 \<le> \<lfloor>v\<rfloor>" using assms(1) by simp
  have f1: "\<lfloor>v\<rfloor> < 2147483648" using assms(2) by (simp add: floor_less_iff)
  then have f2: "\<lfloor>v\<rfloor> < 2 ^ 32" by simp
  have m: "\<lfloor>v\<rfloor> mod 2 ^ 32 = \<lfloor>v\<rfloor>" using f0 f2 by (rule mod_pos_pos_trivial)
  have "toUnsignedLong v = nat \<lfloor>v\<rfloor>"
    using assms(1) m by (simp add: toUnsignedLong_def integerPart_def)
  moreover have "nat \<lfloor>v\<rfloor> \<le> 2147483647" using f0 f1 by linarith
  ultimately show ?thesis by (simp add: setCanvasDim_def Let_def)
qed

lemma handleDragEnd_small:
  assumes "isDragging c" "crop c = Some k" "selWidth k < 5 \<or> selHeight k < 5"
  shows "crop (handleDragEnd c) = None"
  using assms by (auto simp: handleDragEnd_def Let_def)

lemma handleDragEnd_large:
  assumes "isDragging c" "crop c = Some k" "5 \<le> selWidth k" "5 \<le> selHeight k"
  shows "crop (handleDragEnd c) = Some k"
  using assms by (auto simp: handleDragEnd_def Let_def)

lemma handleApplyCrop_none:
  "crop c = None \<Longrightarrow> handleApplyCrop imageRef cropCtx c = None"
  by (simp add: handleApplyCrop_def split: option.splits)

lemma applyCropClick_none:
  "crop c = None \<Longrightarrow> applyCropClick toDataURL env imageRef cropCtx c s = s"
  by (simp add: applyCropClick_def handleApplyCrop_none)

lemma handleApplyCrop_some:
  assumes k: "crop c = Some k" and w: "0 < selWidth k" and h: "0 < selHeight k"
    and bw: "dmul (selWidth k) (ddiv (real (naturalWidth img)) (real (clientWidth img))) < 2147483648"
    and bh: "dmul (selHeight k) (ddiv (real (naturalHeight img)) (real (clientHeight img))) < 2147483648"
  shows "\<exists>canvas mimeType.
           handleApplyCrop (Some img) True c = Some (canvas, mimeType) \<and>
           canvasWidth canvas =
             nat \<lfloor>dmul (selWidth k) (ddiv (real (naturalWidth img)) (real (clientWidth img)))\<rfloor> \<and>
           canvasHeight canvas =
             nat \<lfloor>dmul (selHeight k) (ddiv (real (naturalHeight img)) (real (clientHeight img)))\<rfloor>"
proof -
  have pw: "0 \<le> dmul (selWidth k) (ddiv (real (naturalWidth img)) (real (clientWidth img)))"
    and ph: "0 \<le> dmul (selHeight k) (ddiv (real (naturalHeight img)) (real (clientHeight img)))"
    using w h by (simp_all add: dmul_nonneg ddiv_nonneg)
  show ?thesis
    using k w h setCanvasDim_floor [OF pw bw, of 300] setCanvasDim_floor [OF ph bh, of 150]
    by (simp add: handleApplyCrop_def Let_def)
qed

lemma handleSaveCrop_loaded:
  assumes "fetchBlobType env u = Resolved blobType" "naturalSize env u = Some (w, h)"
  shows "map_option (\<lambda>i. (width i, height i)) (originalImage (handleSaveCrop env u s)) = Some (w, h)"
  using assms by (simp add: handleSaveCrop_def)

lemma handleSaveCrop_not_loaded:
  assumes "naturalSize env u = None"
  shows "originalImage (handleSaveCrop env u s) = originalImage s"
  using assms by (simp add: handleSaveCrop_def split: outcome.splits)


text \<open>
  C6, as amended. At the end of a drag whose rectangle is less than 5 display pixels wide or
  high the selection is dropped; Apply Crop then produces no canvas and leaves the session as
  it is. At the end of a drag of at least 5 by 5 display pixels on an image displayed at a
  positive size, Apply Crop produces a canvas whose width and height are the products the
  code computes in double precision, the display width and height times the per-axis quotient
  of natural by displayed size, with the fraction cut off (as long as they are below
  \<open>2^31\<close>). When both are positive and the encoded canvas is fetched and loads at its size, the
  working image gets that width and height; when one of them is 0 the encoded canvas does not
  load and the working image stays as it is.
\<close>

theorem C6_crop_truncates:
  fixes img :: ImgElement and k :: Crop
  defines "cropWidth \<equiv> dmul (selWidth k) (ddiv (real (naturalWidth img)) (real (clientWidth img)))"
    and "cropHeight \<equiv> dmul (selHeight k) (ddiv (real (naturalHeight img)) (real (clientHeight img)))"
  assumes "isDragging c" and "crop c = Some k"
  shows "(selWidth k < 5 \<or> selHeight k < 5 \<longrightarrow>
            crop (handleDragEnd c) = None \<and>
            handleApplyCrop imageRef cropCtx (handleDragEnd c) = None \<and>
            applyCropClick toDataURL env imageRef cropCtx (handleDragEnd c) s = s) \<and>
         (5 \<le> selWidth k \<and> 5 \<le> selHeight k \<and>
          0 < clientWidth img \<and> 0 < clientHeight img \<and>
          cropWidth < 2147483648 \<and> cropHeight < 2147483648 \<longrightarrow>
            (\<exists>canvas mimeType.
               handleApplyCrop (Some img) True (handleDragEnd c) = Some (canvas, mimeType) \<and>
               canvasWidth canvas = nat \<lfloor>cropWidth\<rfloor> \<and>
               canvasHeight canvas = nat \<lfloor>cropHeight\<rfloor> \<and>
               (loadsEncoded toDataURL env canvas mimeType \<longrightarrow>
                  (0 < nat \<lfloor>cropWidth\<rfloor> \<and> 0 < nat \<lfloor>cropHeight\<rfloor> \<and>
                   fetchBlobType env (toDataURL canvas mimeType) = Resolved blobType \<longrightarrow>
                     map_option (\<lambda>i. (width i, height i))
                       (originalImage (applyCropClick toDataURL env (Some img) True (handleDragEnd c) s))
                     = Some (nat \<lfloor>cropWidth\<rfloor>, nat \<lfloor>cropHeight\<rfloor>)) \<and>
                  (nat \<lfloor>cropWidth\<rfloor> = 0 \<or> nat \<lfloor>cropHeight\<rfloor> = 0 \<longrightarrow>
                     originalImage (applyCropClick toDataURL env (Some img) True (handleDragEnd c) s)
                     = originalImage s))))"
proof (intro conjI impI)
  assume "selWidth k < 5 \<or> selHeight k < 5"
  with assms(3,4) show n: "crop (handleDragEnd c) = None" by (rule handleDragEnd_small)
  then show "handleApplyCrop imageRef cropCtx (handleDragEnd c) = None"
    by (rule handleApplyCrop_none)
  from n show "applyCropClick toDataURL env imageRef cropCtx (handleDragEnd c) s = s"
    by (rule applyCropClick_none)
next
  assume a: "5 \<le> selWidth k \<and> 5 \<le> selHeight k \<and>
          0 < clientWidth img \<and> 0 < clientHeight img \<and>
          cropWidth < 2147483648 \<and> cropHeight < 2147483648"
  then have k: "crop (handleDragEnd c) = Some k"
    using assms(3,4) by (simp add: handleDragEnd_large)
  from a have pos: "0 < selWidth k" "0 < selHeight k" by simp_all
  from a have b: "cropWidth < 2147483648" "cropHeight < 2147483648" by simp_all
  from handleApplyCrop_some [OF k pos b [unfolded cropWidth_def cropHeight_def]]
  obtain canvas mimeType where
    ap: "handleApplyCrop (Some img) True (handleDragEnd c) = Some (canvas, mimeType)"
    and cw: "canvasWidth canvas = nat \<lfloor>cropWidth\<rfloor>"
    and ch: "canvasHeight canvas = nat \<lfloor>cropHeight\<rfloor>"
    unfolding cropWidth_def cropHeight_def by blast
  have click: "applyCropClick toDataURL env (Some img) True (handleDragEnd c) s
               = handleSaveCrop env (toDataURL canvas mimeType) s"
    by (simp add: applyCropClick_def ap)
  have img1: "loadsEncoded toDataURL env canvas mimeType \<longrightarrow>
      (0 < nat \<lfloor>cropWidth\<rfloor> \<and> 0 < nat \<lfloor>cropHeight\<rfloor> \<and>
       fetchBlobType env (toDataURL canvas mimeType) = Resolved blobType \<longrightarrow>
         map_option (\<lambda>i. (width i, height i))
           (originalImage (applyCropClick toDataURL env (Some img) True (handleDragEnd c) s))
         = Some (nat \<lfloor>cropWidth\<rfloor>, nat \<lfloor>cropHeight\<rfloor>)) \<and>
      (nat \<lfloor>cropWidth\<rfloor> = 0 \<or> nat \<lfloor>cropHeight\<rfloor> = 0 \<longrightarrow>
         originalImage (applyCropClick toDataURL env (Some img) True (handleDragEnd c) s)
         = originalImage s)"
  proof (intro impI conjI)
    assume l: "loadsEncoded toDataURL env canvas mimeType"
      and p: "0 < nat \<lfloor>cropWidth\<rfloor> \<and> 0 < nat \<lfloor>cropHeight\<rfloor> \<and>
       fetchBlobType env (toDataURL canvas mimeType) = Resolved blobType"
    from l p have "naturalSize env (toDataURL canvas mimeType)
                   = Some (nat \<lfloor>cropWidth\<rfloor>, nat \<lfloor>cropHeight\<rfloor>)"
      by (simp add: loadsEncoded_def cw ch)
    with p show "map_option (\<lambda>i. (width i, height i))
           (originalImage (applyCropClick toDataURL env (Some img) True (handleDragEnd c) s))
         = Some (nat \<lfloor>cropWidth\<rfloor>, nat \<lfloor>cropHeight\<rfloor>)"
      unfolding click by (intro handleSaveCrop_loaded) simp_all
  next
    assume l: "loadsEncoded toDataURL env canvas mimeType"
      and z: "nat \<lfloor>cropWidth\<rfloor> = 0 \<or> nat \<lfloor>cropHeight\<rfloor> = 0"
    then have "naturalSize env (toDataURL canvas mimeType) = None"
      by (auto simp: loadsEncoded_def cw ch)
    then show "originalImage (applyCropClick toDataURL env (Some img) True (handleDragEnd c) s)
         = originalImage s"
      unfolding click by (rule handleSaveCrop_not_loaded)
  qed
  let ?Q = "\<lambda>canvas mimeType.
               handleApplyCrop (Some img) True (handleDragEnd c) = Some (canvas, mimeType) \<and>
               canvasWidth canvas = nat \<lfloor>cropWidth\<rfloor> \<and>
               canvasHeight canvas = nat \<lfloor>cropHeight\<rfloor> \<and>
               (loadsEncoded toDataURL env canvas mimeType \<longrightarrow>
                  (0 < nat \<lfloor>cropWidth\<rfloor> \<and> 0 < nat \<lfloor>cropHeight\<rfloor> \<and>
                   fetchBlobType env (toDataURL canvas mimeType) = Resolved blobType \<longrightarrow>
                     map_option (\<lambda>i. (width i, height i))
                       (originalImage (applyCropClick toDataURL env (Some img) True (handleDragEnd c) s))
                     = Some (nat \<lfloor>cropWidth\<rfloor>, nat \<lfloor>cropHeight\<rfloor>)) \<and>
                  (nat \<lfloor>cropWidth\<rfloor> = 0 \<or> nat \<lfloor>cropHeight\<rfloor> = 0 \<longrightarrow>
                     originalImage (applyCropClick toDataURL env (Some img) True (handleDragEnd c) s)
                     = originalImage s))"
  have "?Q canvas mimeType" using ap cw ch img1 by (intro conjI)
  then have "\<exists>mimeType. ?Q canvas mimeType" by (rule exI)
  then show "\<exists>canvas mimeType. ?Q canvas mimeType" by (rule exI)
qed


lemma mid_fields:
  "isDragging midDrag" "crop midDrag = Some \<lparr>selX = 10, selY = 10, selWidth = 7, selHeight = 7\<rparr>"
  "isDragging midNudge" "crop midNudge = Some \<lparr>selX = 10, selY = 10, selWidth = 3, selHeight = 30\<rparr>"
  "isDragging midTiny" "crop midTiny = Some \<lparr>selX = 10, selY = 10, selWidth = 5, selHeight = 5\<rparr>"
  by (simp_all add: midDrag_def midNudge_def midTiny_def handleDragStart_def handleDragMove_def
      cropCoords_def shownRect_def freshCropper_def Let_def dsub_def toDouble_numeral)

lemma dragged_end:
  "dragged = handleDragEnd midDrag" "nudged = handleDragEnd midNudge"
  by (simp_all add: dragged_def nudged_def dragGesture_def midDrag_def midNudge_def)

lemma dragged_crop:
  "crop dragged = Some \<lparr>selX = 10, selY = 10, selWidth = 7, selHeight = 7\<rparr>"
  "crop nudged = None"
  using handleDragEnd_large [OF mid_fields(1) mid_fields(2)]
    handleDragEnd_small [OF mid_fields(3) mid_fields(4)]
  by (simp_all add: dragged_end)

lemma sample_sizes:
  "real (naturalWidth shownImg) = 1100" "real (clientWidth shownImg) = 1000"
  "real (naturalHeight shownImg) = 1100" "real (clientHeight shownImg) = 1000"
  "real (naturalWidth tinyImg) = 10" "real (clientWidth tinyImg) = 1000"
  "real (naturalHeight tinyImg) = 10" "real (clientHeight tinyImg) = 1000"
  "real (naturalWidth zoomedOutImg) = 700" "real (clientWidth zoomedOutImg) = 500"
  "real (naturalHeight zoomedOutImg) = 700" "real (clientHeight zoomedOutImg) = 500"
  by (simp_all add: shownImg_def tinyImg_def zoomedOutImg_def)

lemma sample_products:
  "\<lfloor>dmul 7 (ddiv 1100 1000)\<rfloor> = 7" "\<lfloor>dmul 5 (ddiv 10 1000)\<rfloor> = 0"
  "\<lfloor>dmul 45 (ddiv 700 500)\<rfloor> = 62"
  "dmul 7 (ddiv 1100 1000) < 2147483648" "dmul 5 (ddiv 10 1000) < 2147483648"
  "dmul 45 (ddiv 700 500) < 2147483648"
  "round (dmul 7 (ddiv 1100 1000)) = 8"
  by (simp_all add: dmul_7_ratio dmul_5_ratio dmul_45_ratio round_def)

text \<open>
  The product computed in doubles can fall below the exact one: 45 display pixels on a 700
  pixel image shown at 500 give 62.99999999999999, so the canvas is 62 wide, where the exact
  product is 63.
\<close>

lemma double_product_falls_short:
  "map_option (\<lambda>r. (canvasWidth (fst r), canvasHeight (fst r)))
     (handleApplyCrop (Some zoomedOutImg) True selected45) = Some (62, 62) \<and>
   nat \<lfloor>45 * (real (naturalWidth zoomedOutImg) / real (clientWidth zoomedOutImg))\<rfloor> = 63"
  using setCanvasDim_floor [of "dmul 45 (ddiv 700 500)"]
  by (simp add: handleApplyCrop_def selected45_def sample_sizes sample_products Let_def
      dmul_nonneg ddiv_nonneg)

lemma dragged_canvas:
  "map_option (\<lambda>r. (canvasWidth (fst r), canvasHeight (fst r)))
     (handleApplyCrop (Some shownImg) True dragged) = Some (7, 7)"
  using setCanvasDim_floor [of "dmul 7 (ddiv 1100 1000)"]
  by (simp add: handleApplyCrop_def dragged_crop(1) sample_sizes sample_products Let_def
      dmul_nonneg ddiv_nonneg)

text \<open>
  C6, as claimed, has the cropped image's size equal to the rounded product. The drag from
  (10, 10) to (17, 17) selects 7 by 7 display pixels, both at least 5; the image is shown at
  ratio 1100 / 1000, so the product is 7.7 (7.700000000000001 in doubles), which rounds to 8,
  but the canvas, and the image recorded from it, is 7 wide and 7 high.
\<close>

theorem C6_round_counterexample:
  "crop dragged = Some \<lparr>selX = 10, selY = 10, selWidth = 7, selHeight = 7\<rparr> \<and>
   map_option (\<lambda>r. (canvasWidth (fst r), canvasHeight (fst r)))
     (handleApplyCrop (Some shownImg) True dragged) = Some (7, 7) \<and>
   map_option (\<lambda>i. (width i, height i))
     (originalImage (applyCropClick sampleDataURL cropEnv (Some shownImg) True dragged magicFillReady))
     = Some (7, 7) \<and>
   nat (round (7 * (real (naturalWidth shownImg) / real (clientWidth shownImg)))) = 8 \<and>
   nat (round (dmul 7 (ddiv (real (naturalWidth shownImg)) (real (clientWidth shownImg))))) = 8"
proof -
  obtain canvas mimeType where
    ap: "handleApplyCrop (Some shownImg) True dragged = Some (canvas, mimeType)"
    and sz: "canvasWidth canvas = 7" "canvasHeight canvas = 7"
    using dragged_canvas by (cases "handleApplyCrop (Some shownImg) True dragged") auto
  have "map_option (\<lambda>i. (width i, height i))
     (originalImage (applyCropClick sampleDataURL cropEnv (Some shownImg) True dragged magicFillReady))
     = Some (7, 7)"
    by (simp add: applyCropClick_def ap sampleDataURL_def sz handleSaveCrop_def cropEnv_def okEnv_def)
  moreover have "round (7 * (1100 / 1000 :: real)) = 8" by (simp add: round_def)
  ultimately show ?thesis
    by (simp add: dragged_crop(1) dragged_canvas sample_sizes sample_products)
qed


text \<open>
  An instance: the drag of 7 by 7 display pixels on the image shown at ratio 1.1 gives a canvas
  and an image of 7 by 7; the drag of 3 by 30 is dropped; the drag of 5 by 5 on the image shown
  at a hundred times its size gives a canvas of 0 by 0 and no new image.
\<close>

theorem C6_crop_truncates_witness:
  "isDragging midDrag \<and>
   crop midDrag = Some \<lparr>selX = 10, selY = 10, selWidth = 7, selHeight = 7\<rparr> \<and>
   map_option (\<lambda>r. (canvasWidth (fst r), canvasHeight (fst r)))
     (handleApplyCrop (Some shownImg) True (handleDragEnd midDrag)) = Some (7, 7) \<and>
   map_option (\<lambda>i. (width i, height i))
     (originalImage (applyCropClick sampleDataURL cropEnv (Some shownImg) True
        (handleDragEnd midDrag) magicFillReady)) = Some (7, 7) \<and>
   isDragging midNudge \<and>
   crop midNudge = Some \<lparr>selX = 10, selY = 10, selWidth = 3, selHeight = 30\<rparr> \<and>
   crop (handleDragEnd midNudge) = None \<and>
   applyCropClick sampleDataURL cropEnv (Some shownImg) True (handleDragEnd midNudge) magicFillReady
     = magicFillReady \<and>
   isDragging midTiny \<and>
   crop midTiny = Some \<lparr>selX = 10, selY = 10, selWidth = 5, selHeight = 5\<rparr> \<and>
   map_option (\<lambda>r. (canvasWidth (fst r), canvasHeight (fst r)))
     (handleApplyCrop (Some tinyImg) True (handleDragEnd midTiny)) = Some (0, 0) \<and>
   originalImage (applyCropClick sampleDataURL cropEnv (Some tinyImg) True
     (handleDragEnd midTiny) magicFillReady) = originalImage magicFillReady"
proof -
  note T1 = C6_crop_truncates [OF mid_fields(1) mid_fields(2),
      where img = shownImg and toDataURL = sampleDataURL and env = cropEnv
        and s = magicFillReady and blobType = "''image/png''"
        and imageRef = "Some shownImg" and cropCtx = True]
  note T2 = C6_crop_truncates [OF mid_fields(3) mid_fields(4),
      where img = shownImg and toDataURL = sampleDataURL and env = cropEnv
        and s = magicFillReady and blobType = "''image/png''"
        and imageRef = "Some shownImg" and cropCtx = True]
  note T3 = C6_crop_truncates [OF mid_fields(5) mid_fields(6),
      where img = tinyImg and toDataURL = sampleDataURL and env = cropEnv
        and s = magicFillReady and blobType = "''image/png''"
        and imageRef = "Some tinyImg" and cropCtx = True]
  have f: "fetchBlobType cropEnv u = Resolved ''image/png''" for u
    by (simp add: cropEnv_def okEnv_def)
  have c: "0 < clientWidth shownImg" "0 < clientHeight shownImg"
    "0 < clientWidth tinyImg" "0 < clientHeight tinyImg"
    by (simp_all add: shownImg_def tinyImg_def)
  from T1 c obtain cv1 m1 where
    a1: "handleApplyCrop (Some shownImg) True (handleDragEnd midDrag) = Some (cv1, m1)"
    and s1: "canvasWidth cv1 = 7" "canvasHeight cv1 = 7"
    and i1: "loadsEncoded sampleDataURL cropEnv cv1 m1 \<longrightarrow>
       map_option (\<lambda>i. (width i, height i))
         (originalImage (applyCropClick sampleDataURL cropEnv (Some shownImg) True
            (handleDragEnd midDrag) magicFillReady)) = Some (7, 7)"
    by (auto simp: sample_sizes sample_products f)
  have l1: "loadsEncoded sampleDataURL cropEnv cv1 m1"
    by (simp add: loadsEncoded_def sampleDataURL_def s1 cropEnv_def)
  from T3 c obtain cv3 m3 where
    a3: "handleApplyCrop (Some tinyImg) True (handleDragEnd midTiny) = Some (cv3, m3)"
    and s3: "canvasWidth cv3 = 0" "canvasHeight cv3 = 0"
    and i3: "loadsEncoded sampleDataURL cropEnv cv3 m3 \<longrightarrow>
       originalImage (applyCropClick sampleDataURL cropEnv (Some tinyImg) True
         (handleDragEnd midTiny) magicFillReady) = originalImage magicFillReady"
    by (auto simp: sample_sizes sample_products f)
  have l3: "loadsEncoded sampleDataURL cropEnv cv3 m3"
    by (simp add: loadsEncoded_def sampleDataURL_def s3 cropEnv_def croppedUrl_def)
  from T2 have n: "crop (handleDragEnd midNudge) = None"
    "applyCropClick sampleDataURL cropEnv (Some shownImg) True (handleDragEnd midNudge) magicFillReady
     = magicFillReady"
    by simp_all
  from mid_fields a1 s1 i1 l1 a3 s3 i3 l3 n show ?thesis by simp
qed

end
